theory Spec2Isabelle
  imports Main
begin

section \<open>JavaScript values\<close>

text \<open>
  The service is JavaScript. Everything it stores or sends is either a value produced by
  \<^verbatim>\<open>JSON.parse\<close> or by an object literal of JSON shape (\<open>json\<close>), the value
  \<^verbatim>\<open>undefined\<close>, or a member that every plain object inherits from
  \<^verbatim>\<open>Object.prototype\<close> (\<open>Native\<close>, named by the member). Numbers are
  integers here, of the size JavaScript prints in full (below \<open>10\<^sup>2\<^sup>1\<close>); the handlers
  only test a number for zero and print it. Strings are strings of bytes.
  A field list gives the own properties of an object, the first binding of a name being the
  effective one.
\<close>

datatype json =
    JNull
  | JBool bool
  | JNum int
  | JStr string
  | JArr "json list"
  | JObj "(string \<times> json) list"

datatype jsval = Undefined | Json json | Native string

datatype js_error =
    TypeError
  | SyntaxError
  | URIError
  | FetchRejected
  | UpstreamError nat string
  | TranscriptionFailed string

fun truthy_json :: "json \<Rightarrow> bool" where
  "truthy_json JNull = False"
| "truthy_json (JBool b) = b"
| "truthy_json (JNum n) = (n \<noteq> 0)"
| "truthy_json (JStr s) = (s \<noteq> [])"
| "truthy_json (JArr xs) = True"
| "truthy_json (JObj fs) = True"

fun truthy :: "jsval \<Rightarrow> bool" where
  "truthy Undefined = False"
| "truthy (Json v) = truthy_json v"
| "truthy (Native n) = True"

text \<open>\<^verbatim>\<open>a || b\<close> with \<open>b\<close> a JSON literal.\<close>

definition or_else :: "jsval \<Rightarrow> json \<Rightarrow> json" where
  "or_else a b = (case a of Json v \<Rightarrow> (if truthy_json v then v else b) | _ \<Rightarrow> b)"

text \<open>
  The names of the members every plain object inherits (\<^verbatim>\<open>Object.prototype\<close>), and of
  those arrays add. The accessor \<^verbatim>\<open>__proto__\<close> is not in the list: it is treated where
  a store is read and written.
\<close>

definition object_prototype_names :: "string list" where
  "object_prototype_names =
     [''constructor'', ''__defineGetter__'', ''__defineSetter__'', ''hasOwnProperty'',
      ''__lookupGetter__'', ''__lookupSetter__'', ''isPrototypeOf'', ''propertyIsEnumerable'',
      ''toString'', ''valueOf'', ''toLocaleString'']"

definition array_prototype_names :: "string list" where
  "array_prototype_names =
     [''at'', ''concat'', ''copyWithin'', ''fill'', ''find'', ''findIndex'', ''findLast'',
      ''findLastIndex'', ''lastIndexOf'', ''pop'', ''push'', ''reverse'', ''shift'', ''unshift'',
      ''slice'', ''sort'', ''splice'', ''includes'', ''indexOf'', ''join'', ''keys'', ''entries'',
      ''values'', ''forEach'', ''filter'', ''flat'', ''flatMap'', ''map'', ''every'', ''some'',
      ''reduce'', ''reduceRight'', ''toReversed'', ''toSorted'', ''toSpliced'', ''with'']"

definition inherited_member :: "string \<Rightarrow> jsval" where
  "inherited_member k = (if k \<in> set object_prototype_names then Native k else Undefined)"

text \<open>
  \<^verbatim>\<open>v.name\<close> for the property names the handlers write out (\<^verbatim>\<open>test_id\<close>,
  \<^verbatim>\<open>type\<close>, \<^verbatim>\<open>questions\<close>, \<^verbatim>\<open>prompt\<close>, \<^verbatim>\<open>answers\<close>,
  \<^verbatim>\<open>answerText\<close>, \<^verbatim>\<open>text\<close>, \<^verbatim>\<open>choices\<close>, \<^verbatim>\<open>message\<close>,
  \<^verbatim>\<open>content\<close>, \<^verbatim>\<open>testType\<close>, \<^verbatim>\<open>level\<close>, \<^verbatim>\<open>numTasks\<close>). Reading from
  \<^verbatim>\<open>null\<close> or \<^verbatim>\<open>undefined\<close> throws; no builtin prototype defines one of these
  names, so on anything but an object the read gives \<^verbatim>\<open>undefined\<close>.
\<close>

fun get_prop :: "jsval \<Rightarrow> string \<Rightarrow> js_error + jsval" where
  "get_prop Undefined k = Inl TypeError"
| "get_prop (Json JNull) k = Inl TypeError"
| "get_prop (Json (JObj fs)) k =
     Inr (case map_of fs k of Some v \<Rightarrow> Json v | None \<Rightarrow> inherited_member k)"
| "get_prop v k = Inr Undefined"

text \<open>\<^verbatim>\<open>v[0]\<close>.\<close>

fun index0 :: "jsval \<Rightarrow> js_error + jsval" where
  "index0 Undefined = Inl TypeError"
| "index0 (Json JNull) = Inl TypeError"
| "index0 (Json (JArr xs)) = Inr (case xs of [] \<Rightarrow> Undefined | x # _ \<Rightarrow> Json x)"
| "index0 (Json (JStr s)) = Inr (case s of [] \<Rightarrow> Undefined | c # _ \<Rightarrow> Json (JStr [c]))"
| "index0 (Json (JObj fs)) =
     Inr (case map_of fs ''0'' of Some v \<Rightarrow> Json v | None \<Rightarrow> Undefined)"
| "index0 v = Inr Undefined"

subsection \<open>Conversion to string\<close>

definition digit_char :: "nat \<Rightarrow> char" where
  "digit_char d = char_of (of_char CHR ''0'' + d)"

fun show_nat :: "nat \<Rightarrow> string" where
  "show_nat n = (if n < 10 then [digit_char n] else show_nat (n div 10) @ [digit_char (n mod 10)])"

declare show_nat.simps [simp del]

definition show_int :: "int \<Rightarrow> string" where
  "show_int i = (if i < 0 then CHR ''-'' # show_nat (nat (- i)) else show_nat (nat i))"

fun join_comma :: "string list \<Rightarrow> string" where
  "join_comma [] = []"
| "join_comma [s] = s"
| "join_comma (s # t # ss) = s @ '','' @ join_comma (t # ss)"

text \<open>
  \<^verbatim>\<open>String(v)\<close>, as a template literal, a property key and \<^verbatim>\<open>JSON.parse\<close> apply
  it. An array joins its elements with commas, \<^verbatim>\<open>null\<close> elements printing as nothing.
  A parsed object has no callable \<^verbatim>\<open>toString\<close> of its own: with an own property of
  that name the conversion throws a TypeError (\<open>None\<close>), otherwise the inherited method
  prints \<^verbatim>\<open>[object Object]\<close>.
\<close>

fun to_string :: "json \<Rightarrow> string option"
  and elem_strings :: "json list \<Rightarrow> string list option" where
  "to_string JNull = Some ''null''"
| "to_string (JBool b) = Some (if b then ''true'' else ''false'')"
| "to_string (JNum n) = Some (show_int n)"
| "to_string (JStr s) = Some s"
| "to_string (JArr xs) = map_option join_comma (elem_strings xs)"
| "to_string (JObj fs) =
     (if map_of fs ''toString'' = None then Some ''[object Object]'' else None)"
| "elem_strings [] = Some []"
| "elem_strings (x # xs) =
     (case (if x = JNull then Some [] else to_string x) of
        None \<Rightarrow> None
      | Some s \<Rightarrow> map_option ((#) s) (elem_strings xs))"

fun str :: "jsval \<Rightarrow> js_error + string" where
  "str Undefined = Inr ''undefined''"
| "str (Json v) = (case to_string v of None \<Rightarrow> Inl TypeError | Some s \<Rightarrow> Inr s)"
| "str (Native n) =
     Inr (if n = ''Object.prototype'' then ''[object Object]''
          else ''function '' @ n @ ''() { [native code] }'')"

section \<open>The external calls\<close>

text \<open>
  The chat-completion endpoint is an oracle: for the messages sent, the \<^verbatim>\<open>fetch\<close>
  is rejected (also when the body cannot be read), or answers with a status that is not ok
  and a text, or answers ok with a JSON body. The three copies of
  \<^verbatim>\<open>callOpenAIChat\<close> differ only in the wording of the error they throw.
\<close>

datatype fetch_result = Rejected | Status nat string | Body json

type_synonym message = "string \<times> string"

type_synonym chat = "message list \<Rightarrow> fetch_result"

text \<open>The outbound requests a function made, in order: what the claims call external calls.\<close>

datatype ext_call = ChatCall "message list" | TranscribeCall

definition and_then :: "'e + 'a \<Rightarrow> ('a \<Rightarrow> 'e + 'b) \<Rightarrow> 'e + 'b" where
  "and_then m f = (case m of Inl e \<Rightarrow> Inl e | Inr x \<Rightarrow> f x)"

definition nullish :: "jsval \<Rightarrow> bool" where
  "nullish v = (v = Undefined \<or> v = Json JNull)"

text \<open>\<^verbatim>\<open>v?.[0]\<close> and \<^verbatim>\<open>v?.name\<close>.\<close>

definition opt_index0 :: "jsval \<Rightarrow> jsval" where
  "opt_index0 v = (if nullish v then Undefined
                   else (case index0 v of Inl e \<Rightarrow> Undefined | Inr x \<Rightarrow> x))"

definition opt_prop :: "jsval \<Rightarrow> string \<Rightarrow> jsval" where
  "opt_prop v k = (if nullish v then Undefined
                   else (case get_prop v k of Inl e \<Rightarrow> Undefined | Inr x \<Rightarrow> x))"

definition callOpenAIChat :: "chat \<Rightarrow> message list \<Rightarrow> js_error + json" where
  "callOpenAIChat fetch messages =
     (case fetch messages of
        Rejected \<Rightarrow> Inl FetchRejected
      | Status st text \<Rightarrow> Inl (UpstreamError st text)
      | Body j \<Rightarrow>
          and_then (get_prop (Json j) ''choices'') (\<lambda>choices.
            let content = opt_prop (opt_prop (opt_index0 choices) ''message'') ''content''
            in Inr (or_else content (JStr []))))"

text \<open>\<^verbatim>\<open>JSON.parse(v)\<close>: the argument is converted to a string, then parsed by \<open>parse\<close>.\<close>

definition JSON_parse :: "(string \<Rightarrow> json option) \<Rightarrow> json \<Rightarrow> js_error + json" where
  "JSON_parse parser v =
     and_then (str (Json v)) (\<lambda>s. case parser s of None \<Rightarrow> Inl SyntaxError | Some j \<Rightarrow> Inr j)"

section \<open>The test generator\<close>

definition canned_prompt :: string where
  "canned_prompt = ''Write an essay (250+ words) on: The benefits of online education.''"

definition fallback_test :: "string \<Rightarrow> json \<Rightarrow> json" where
  "fallback_test uid level =
     JObj [(''test_id'', JStr uid), (''type'', JStr ''writing''), (''level'', level),
           (''questions'', JArr [JObj [(''id'', JStr ''q1''), (''title'', JStr ''Task 2''),
                                       (''prompt'', JStr canned_prompt)]])]"

definition stub_test :: "string \<Rightarrow> json \<Rightarrow> json \<Rightarrow> json" where
  "stub_test uid type level =
     JObj [(''test_id'', JStr uid), (''type'', type), (''level'', level), (''questions'', JArr [])]"

definition user_json_only :: message where
  "user_json_only = (''user'', ''Return JSON only.'')"

definition json_example :: "string \<Rightarrow> string \<Rightarrow> string" where
  \<open>json_example uid level =
     ''{"test_id":"'' @ uid @ ''","type":"writing","level":"'' @ level @
     ''","questions":[{"id":"q1","title":"Task 2","prompt":"..."}]}''\<close>

text \<open>The system instruction of \<^verbatim>\<open>server.js\<close>; building it converts both arguments.\<close>

definition writing_sys :: "string \<Rightarrow> json \<Rightarrow> json \<Rightarrow> js_error + string" where
  "writing_sys uid level numTasks =
     and_then (str (Json numTasks)) (\<lambda>n.
     and_then (str (Json level)) (\<lambda>l.
       Inr (''You are an expert IELTS writer. Create '' @ n @
            '' Writing Task 2 prompts suitable for level '' @ l @
            ''. Return ONLY valid JSON like:\<newline>'' @ json_example uid l)))"

definition speaking_test :: "string \<Rightarrow> json \<Rightarrow> json" where
  "speaking_test uid level =
     JObj [(''test_id'', JStr uid), (''type'', JStr ''speaking''), (''level'', level),
           (''parts'', JArr
              [JObj [(''part'', JNum 1),
                     (''items'', JArr [JObj [(''id'', JStr ''p1q1''), (''q'', JStr ''What is your full name?'')],
                                       JObj [(''id'', JStr ''p1q2''), (''q'', JStr ''Where are you from?'')]])],
               JObj [(''part'', JNum 2), (''cue'', JStr ''Describe a memorable trip you had.''),
                     (''prep_time'', JNum 60), (''speak_time'', JNum 120)],
               JObj [(''part'', JNum 3),
                     (''items'', JArr [JObj [(''id'', JStr ''p3q1''), (''q'', JStr ''Why do people travel?'')]])]])]"

text \<open>
  \<^verbatim>\<open>generateTest\<close> of \<^verbatim>\<open>server.js\<close>. \<open>uid\<close> is the identifier
  \<^verbatim>\<open>uuidv4()\<close> mints on entry. The \<^verbatim>\<open>try\<close> covers the call and the parse, not the
  building of the instruction. The second component lists the outbound requests made.
\<close>

definition generateTest ::
  "(string \<Rightarrow> json option) \<Rightarrow> chat \<Rightarrow> string \<Rightarrow> json \<Rightarrow> json \<Rightarrow> json
     \<Rightarrow> (js_error + json) \<times> ext_call list" where
  "generateTest parser fetch uid type level numTasks =
     (if type = JStr ''writing'' then
        (case writing_sys uid level numTasks of
           Inl e \<Rightarrow> (Inl e, [])
         | Inr sys \<Rightarrow>
             (let messages = [(''system'', sys), user_json_only] in
              (case and_then (callOpenAIChat fetch messages) (JSON_parse parser) of
                 Inr parsed \<Rightarrow> Inr parsed
               | Inl e \<Rightarrow> Inr (fallback_test uid level),
               [ChatCall messages])))
      else if type = JStr ''speaking'' then (Inr (speaking_test uid level), [])
      else (Inr (stub_test uid type level), []))"

text \<open>The copy in \<^verbatim>\<open>api/order-test.js\<close>: another wording, a shorter speaking sample.\<close>

definition writing_sys_api :: "string \<Rightarrow> json \<Rightarrow> json \<Rightarrow> js_error + string" where
  "writing_sys_api uid level numTasks =
     and_then (str (Json numTasks)) (\<lambda>n.
     and_then (str (Json level)) (\<lambda>l.
       Inr (''You are an expert IELTS writer. Create '' @ n @
            '' Writing Task 2 prompt suitable for level '' @ l @
            ''. Return ONLY valid JSON like:\<newline>'' @ json_example uid l)))"

definition speaking_test_api :: "string \<Rightarrow> json \<Rightarrow> json" where
  "speaking_test_api uid level =
     JObj [(''test_id'', JStr uid), (''type'', JStr ''speaking''), (''level'', level),
           (''parts'', JArr
              [JObj [(''part'', JNum 1),
                     (''items'', JArr [JObj [(''id'', JStr ''p1q1''), (''q'', JStr ''What is your full name?'')]])],
               JObj [(''part'', JNum 2), (''cue'', JStr ''Describe a memorable trip you had.''),
                     (''prep_time'', JNum 60), (''speak_time'', JNum 120)]])]"

definition generateTest_api ::
  "(string \<Rightarrow> json option) \<Rightarrow> chat \<Rightarrow> string \<Rightarrow> json \<Rightarrow> json \<Rightarrow> json
     \<Rightarrow> (js_error + json) \<times> ext_call list" where
  "generateTest_api parser fetch uid type level numTasks =
     (if type = JStr ''writing'' then
        (case writing_sys_api uid level numTasks of
           Inl e \<Rightarrow> (Inl e, [])
         | Inr sys \<Rightarrow>
             (let messages = [(''system'', sys), user_json_only] in
              (case and_then (callOpenAIChat fetch messages) (JSON_parse parser) of
                 Inr parsed \<Rightarrow> Inr parsed
               | Inl e \<Rightarrow> Inr (fallback_test uid level),
               [ChatCall messages])))
      else if type = JStr ''speaking'' then (Inr (speaking_test_api uid level), [])
      else (Inr (stub_test uid type level), []))"

section \<open>The stores\<close>

text \<open>
  \<^verbatim>\<open>TESTS\<close> is a plain object used as a dictionary, and its keys come from the client
  and from the generated test. A read finds an own property first and then what the object
  inherits; writing the key \<^verbatim>\<open>__proto__\<close> reaches the inherited setter, which replaces
  the prototype by an object or by \<^verbatim>\<open>null\<close> and ignores any other value.
  \<open>proto = None\<close> is the initial prototype \<^verbatim>\<open>Object.prototype\<close>.
\<close>

record tests_store =
  own :: "string \<rightharpoonup> json"
  proto :: "json option"

definition empty_tests :: tests_store where
  "empty_tests = \<lparr>own = Map.empty, proto = None\<rparr>"

definition array_member :: "json list \<Rightarrow> string \<Rightarrow> jsval option" where
  "array_member xs k =
     (case map_of (zip (map show_nat [0..<length xs]) xs) k of
        Some v \<Rightarrow> Some (Json v)
      | None \<Rightarrow> if k = ''length'' then Some (Json (JNum (int (length xs)))) else None)"

definition proto_member :: "json \<Rightarrow> string \<Rightarrow> jsval" where
  "proto_member p k =
     (case p of
        JObj fs \<Rightarrow>
          (case map_of fs k of
             Some v \<Rightarrow> Json v
           | None \<Rightarrow> if k = ''__proto__'' then Json p else inherited_member k)
      | JArr xs \<Rightarrow>
          (case array_member xs k of
             Some v \<Rightarrow> v
           | None \<Rightarrow> if k = ''__proto__'' then Json p
                     else if k \<in> set array_prototype_names then Native k
                     else inherited_member k)
      | _ \<Rightarrow> Undefined)"

definition js_get :: "tests_store \<Rightarrow> string \<Rightarrow> jsval" where
  "js_get T k =
     (case own T k of
        Some v \<Rightarrow> Json v
      | None \<Rightarrow>
          (case proto T of
             None \<Rightarrow> if k = ''__proto__'' then Native ''Object.prototype'' else inherited_member k
           | Some p \<Rightarrow> proto_member p k))"

definition setter_reached :: "tests_store \<Rightarrow> bool" where
  "setter_reached T =
     (own T ''__proto__'' = None \<and>
      (case proto T of
         None \<Rightarrow> True
       | Some (JObj fs) \<Rightarrow> map_of fs ''__proto__'' = None
       | Some (JArr xs) \<Rightarrow> True
       | Some _ \<Rightarrow> False))"

definition js_set :: "tests_store \<Rightarrow> string \<Rightarrow> json \<Rightarrow> tests_store" where
  "js_set T k v =
     (if k = ''__proto__'' \<and> setter_reached T then
        (case v of
           JObj fs \<Rightarrow> T\<lparr>proto := Some v\<rparr>
         | JArr xs \<Rightarrow> T\<lparr>proto := Some v\<rparr>
         | JNull \<Rightarrow> T\<lparr>proto := Some JNull\<rparr>
         | _ \<Rightarrow> T)
      else T\<lparr>own := (own T)(k \<mapsto> v)\<rparr>)"

text \<open>
  \<^verbatim>\<open>ORDERS\<close> and \<^verbatim>\<open>SUBMISSIONS\<close> are keyed only by identifiers the service mints
  (\<^verbatim>\<open>uuidv4()\<close>, or a base-36 number), which are never the name of an inherited member,
  and \<^verbatim>\<open>ORDERS\<close> is read only through \<^verbatim>\<open>Object.values\<close>: they are finite maps.
\<close>

datatype order_status = Ready | Graded

record order =
  o_orderId :: string
  o_testId :: json
  o_test :: json
  o_status :: order_status
  o_createdAt :: string
  o_type :: json
  o_level :: json
  o_testUrl :: string

datatype job_input = Answers json | Transcript json

record job =
  j_jobId :: string
  j_testId :: string
  j_type :: string
  j_input :: job_input
  j_result :: json
  j_createdAt :: string

text \<open>
  \<^verbatim>\<open>global.RATE\<close> maps a client to its timestamps (milliseconds). Only array-valued
  slots are recorded: for a client named like an inherited member the slot read is that
  member, which has no \<^verbatim>\<open>filter\<close>, and the handler throws before any timestamp is kept.
\<close>

record state =
  TESTS :: tests_store
  ORDERS :: "string \<rightharpoonup> order"
  SUBMISSIONS :: "string \<rightharpoonup> job"
  RATE :: "string \<rightharpoonup> int list"

definition init_state :: state where
  "init_state = \<lparr>TESTS = empty_tests, ORDERS = Map.empty, SUBMISSIONS = Map.empty, RATE = Map.empty\<rparr>"

text \<open>
  A response is a status with the fields handed to \<^verbatim>\<open>res.json\<close>; \<open>Threw e\<close> is the
  \<^verbatim>\<open>catch\<close> branch, status 500 with the message of \<open>e\<close>.
\<close>

datatype response = Reply nat "(string \<times> jsval) list" | Threw js_error

definition error_reply :: "nat \<Rightarrow> string \<Rightarrow> response" where
  "error_reply st msg = Reply st [(''error'', Json (JStr msg))]"

text \<open>
  What the process is configured with: \<^verbatim>\<open>JSON.parse\<close> on strings (\<open>None\<close> when it
  throws), \<^verbatim>\<open>encodeURIComponent\<close> (\<open>None\<close> for the URIError of a lone surrogate) and
  \<^verbatim>\<open>SITE_BASE\<close>.
\<close>

record config =
  parse :: "string \<Rightarrow> json option"
  encodeURIComponent :: "string \<Rightarrow> string option"
  SITE_BASE :: string

section \<open>Ordering a test\<close>

text \<open>
  One request to order a test, with what the handler reads while it runs: the three
  identifiers \<^verbatim>\<open>uuidv4()\<close> would mint (for the order, inside the generator, and for a
  test that carries no \<^verbatim>\<open>test_id\<close>), the chat endpoint, and the clock. The method, the
  two addresses and \<^verbatim>\<open>Date.now()\<close> are read by \<^verbatim>\<open>api/order-test.js\<close> only.
  A handler runs from request to response without another request in between.
\<close>

record order_request =
  od_body :: jsval
  od_uuid_order :: string
  od_uuid_gen :: string
  od_uuid_test :: string
  od_chat :: chat
  od_iso :: string
  od_method :: string
  od_forwarded_for :: "string option"
  od_remoteAddress :: "string option"
  od_now :: int

text \<open>
  \<^verbatim>\<open>req.body || {}\<close>. The result is truthy, so the properties the handlers take from
  it (\<open>opt_prop\<close>) are read without a throw.
\<close>

definition body_or_empty :: "jsval \<Rightarrow> jsval" where
  "body_or_empty b = (if truthy b then b else Json (JObj []))"

text \<open>
  The lines both order handlers share, from \<^verbatim>\<open>test.test_id || uuidv4()\<close> to the
  response. \<open>generated\<close> is what \<^verbatim>\<open>generateTest\<close> gave.
\<close>

definition store_order ::
  "config \<Rightarrow> order_request \<Rightarrow> json \<Rightarrow> json \<Rightarrow> (js_error + json) \<Rightarrow> state \<Rightarrow> response \<times> state" where
  "store_order cfg rq testType level generated s =
     (case generated of
        Inl e \<Rightarrow> (Threw e, s)
      | Inr test \<Rightarrow>
          (case get_prop (Json test) ''test_id'' of
             Inl e \<Rightarrow> (Threw e, s)
           | Inr tid \<Rightarrow>
               (let testId = or_else tid (JStr (od_uuid_test rq)) in
                case str (Json testId) of
                  Inl e \<Rightarrow> (Threw e, s)
                | Inr key \<Rightarrow>
                    (let s1 = s\<lparr>TESTS := js_set (TESTS s) key test\<rparr> in
                     case encodeURIComponent cfg key of
                       None \<Rightarrow> (Threw URIError, s1)
                     | Some enc \<Rightarrow>
                         (let testUrl = SITE_BASE cfg @ ''/?testId='' @ enc;
                              order = \<lparr>o_orderId = od_uuid_order rq, o_testId = testId,
                                       o_test = test, o_status = Ready, o_createdAt = od_iso rq,
                                       o_type = testType, o_level = level, o_testUrl = testUrl\<rparr>
                          in (Reply 200 [(''ok'', Json (JBool True)),
                                         (''orderId'', Json (JStr (od_uuid_order rq))),
                                         (''testId'', Json testId),
                                         (''testUrl'', Json (JStr testUrl))],
                              s1\<lparr>ORDERS := (ORDERS s1)(od_uuid_order rq \<mapsto> order)\<rparr>))))))"

text \<open>\<^verbatim>\<open>app.post('/api/order-test')\<close> of \<^verbatim>\<open>server.js\<close>.\<close>

definition order_test :: "config \<Rightarrow> order_request \<Rightarrow> state \<Rightarrow> response \<times> state \<times> ext_call list" where
  "order_test cfg rq s =
     (let b = body_or_empty (od_body rq) in
      case opt_prop b ''testType'' of
        Json testType \<Rightarrow>
          if \<not> truthy_json testType then (error_reply 400 ''testType required'', s, [])
          else
            (let level = or_else (opt_prop b ''level'') (JStr ''ielts-6'');
                 numTasks = or_else (opt_prop b ''numTasks'') (JNum 1);
                 (generated, calls) =
                    generateTest (parse cfg) (od_chat rq) (od_uuid_gen rq) testType level numTasks;
                 (rsp, s') = store_order cfg rq testType level generated s
             in (rsp, s', calls))
      | _ \<Rightarrow> (error_reply 400 ''testType required'', s, []))"

text \<open>The handler of \<^verbatim>\<open>api/order-test.js\<close>, with its rate limiter.\<close>

definition client_ip :: "order_request \<Rightarrow> string" where
  "client_ip rq =
     (case od_forwarded_for rq of
        Some x \<Rightarrow> if x \<noteq> [] then x else
          (case od_remoteAddress rq of Some a \<Rightarrow> if a \<noteq> [] then a else ''guest'' | None \<Rightarrow> ''guest'')
      | None \<Rightarrow>
          (case od_remoteAddress rq of Some a \<Rightarrow> if a \<noteq> [] then a else ''guest'' | None \<Rightarrow> ''guest''))"

text \<open>
  \<^verbatim>\<open>global.RATE[ip] || []\<close>: \<open>None\<close> when the slot holds an inherited member instead of
  an array, and the \<^verbatim>\<open>filter\<close> call on it throws.
\<close>

definition rate_slot :: "(string \<rightharpoonup> int list) \<Rightarrow> string \<Rightarrow> int list option" where
  "rate_slot R ip =
     (case R ip of
        Some bucket \<Rightarrow> Some bucket
      | None \<Rightarrow> if ip = ''__proto__'' \<or> ip \<in> set object_prototype_names then None else Some [])"

definition day_ms :: int where
  "day_ms = 24 * 60 * 60 * 1000"

definition prune :: "int \<Rightarrow> int list \<Rightarrow> int list" where
  "prune now bucket = filter (\<lambda>t. now - t < day_ms) bucket"

definition order_test_api :: "config \<Rightarrow> order_request \<Rightarrow> state \<Rightarrow> response \<times> state \<times> ext_call list" where
  "order_test_api cfg rq s =
     (if od_method rq \<noteq> ''POST'' then (error_reply 405 ''Method not allowed'', s, [])
      else
        (let b = body_or_empty (od_body rq) in
         case opt_prop b ''testType'' of
           Json testType \<Rightarrow>
             if \<not> truthy_json testType then (error_reply 400 ''testType required'', s, [])
             else
               (let ip = client_ip rq in
                case rate_slot (RATE s) ip of
                  None \<Rightarrow> (Threw TypeError, s, [])
                | Some bucket \<Rightarrow>
                    (let kept = prune (od_now rq) bucket in
                     if length kept \<ge> 5 then
                       (error_reply 429 ''Rate limit: max 5 free tests/day'',
                        s\<lparr>RATE := (RATE s)(ip \<mapsto> kept)\<rparr>, [])
                     else
                       (let s0 = s\<lparr>RATE := (RATE s)(ip \<mapsto> kept @ [od_now rq])\<rparr>;
                            level = or_else (opt_prop b ''level'') (JStr ''ielts-6'');
                            numTasks = or_else (opt_prop b ''numTasks'') (JNum 1);
                            (generated, calls) =
                               generateTest_api (parse cfg) (od_chat rq) (od_uuid_gen rq)
                                 testType level numTasks;
                            (rsp, s') = store_order cfg rq testType level generated s0
                        in (rsp, s', calls))))
         | _ \<Rightarrow> (error_reply 400 ''testType required'', s, [])))"

section \<open>Fetching a test\<close>

text \<open>\<^verbatim>\<open>app.get('/api/test/:testId')\<close> and \<^verbatim>\<open>api/test/[testId].js\<close>: the same lines.\<close>

definition get_test :: "string \<Rightarrow> state \<Rightarrow> response" where
  "get_test tid s =
     (let t = js_get (TESTS s) tid in
      if \<not> truthy t then error_reply 404 ''test not found''
      else Reply 200 [(''ok'', Json (JBool True)), (''test'', t)])"

section \<open>Submitting answers\<close>

text \<open>
  The transcription endpoint is an oracle like the chat endpoint: the \<^verbatim>\<open>fetch\<close> is
  rejected, or answers not ok with a text, or answers ok with a JSON body.
\<close>

datatype tr_result = TrRejected | TrStatus string | TrBody json

text \<open>
  One submission: the \<^verbatim>\<open>testId\<close> of the path, whether \<^verbatim>\<open>multer\<close> found an
  \<^verbatim>\<open>audio\<close> file, the parsed body, the two endpoints, the identifier minted for the job
  and the clock. The method and the content type are read by the handler of
  \<^verbatim>\<open>api/test/[testId]/submit.js\<close> only.
\<close>

record submit_request =
  sb_testId :: string
  sb_file :: bool
  sb_body :: jsval
  sb_transcription :: tr_result
  sb_chat :: chat
  sb_uuid_job :: string
  sb_iso :: string
  sb_method :: string
  sb_content_type :: "string option"

definition speakingSystem :: string where
  \<open>speakingSystem =
     ''You are an experienced IELTS speaking examiner. Given the transcript, return ONLY valid JSON:\<newline>'' @
     ''{"estimated_overall_band": float, "band_by_criteria":{"fluency":float,"lexical":float,"grammar":float,"pronunciation":float}, '' @
     ''"short_feedback":"...", "strengths":[...], "weaknesses":[...], "recommended_actionable_tips":[...], "confidence": float }''\<close>

definition writingSystem :: string where
  \<open>writingSystem =
     ''You are an experienced IELTS writing examiner. Given the prompt and the essay, return ONLY valid JSON:\<newline>'' @
     ''{"estimated_overall_band": float, "band_by_criteria": {"task": float, "cohesion": float, "lexical": float, "grammar": float}, '' @
     ''"short_feedback":"...", "strengths":[...], "weaknesses":[...], "recommended_actionable_tips":[...], "confidence": float }''\<close>

definition writingSystem_api :: string where
  \<open>writingSystem_api =
     ''You are an experienced IELTS writing examiner. Given the prompt and the essay, return ONLY valid JSON:\<newline>'' @
     ''{"estimated_overall_band": 0.0, "band_by_criteria": {"task":0.0,"cohesion":0.0,"lexical":0.0,"grammar":0.0}, '' @
     ''"short_feedback":"", "strengths":[], "weaknesses":[], "recommended_actionable_tips":[], "confidence":0.0 }''\<close>

text \<open>\<^verbatim>\<open>(answers[0] && answers[0].answerText) || ''\<close>.\<close>

definition essay_of :: "json \<Rightarrow> js_error + json" where
  "essay_of answers =
     and_then (index0 (Json answers)) (\<lambda>a0.
     and_then (if truthy a0 then get_prop a0 ''answerText'' else Inr a0) (\<lambda>t.
       Inr (or_else t (JStr []))))"

text \<open>\<^verbatim>\<open>test.questions && test.questions[0] && test.questions[0].prompt\<close>.\<close>

definition prompt_of :: "jsval \<Rightarrow> js_error + jsval" where
  "prompt_of test =
     and_then (get_prop test ''questions'') (\<lambda>q.
       if \<not> truthy q then Inr q
       else and_then (index0 q) (\<lambda>q0.
         if \<not> truthy q0 then Inr q0 else get_prop q0 ''prompt''))"

definition userContent :: "jsval \<Rightarrow> json \<Rightarrow> js_error + string" where
  "userContent test essay =
     and_then (prompt_of test) (\<lambda>p.
     and_then (str p) (\<lambda>ps.
     and_then (str (Json essay)) (\<lambda>es.
       Inr (''Prompt:\<newline>'' @ ps @ ''\<newline>\<newline>Essay:\<newline>'' @ es))))"

text \<open>
  The grading call with its \<^verbatim>\<open>try { parsed = JSON.parse(evalResp) } catch { parsed = { raw: evalResp } }\<close>.
  A failure of the call itself is not caught here.
\<close>

definition grade :: "(string \<Rightarrow> json option) \<Rightarrow> chat \<Rightarrow> message list \<Rightarrow> js_error + json" where
  "grade parser fetch messages =
     and_then (callOpenAIChat fetch messages) (\<lambda>evalResp.
       Inr (case JSON_parse parser evalResp of
              Inr parsed \<Rightarrow> parsed
            | Inl e \<Rightarrow> JObj [(''raw'', evalResp)]))"

definition new_job :: "submit_request \<Rightarrow> string \<Rightarrow> job_input \<Rightarrow> json \<Rightarrow> job" where
  "new_job rq type input parsed =
     \<lparr>j_jobId = sb_uuid_job rq, j_testId = sb_testId rq, j_type = type, j_input = input,
      j_result = parsed, j_createdAt = sb_iso rq\<rparr>"

definition job_reply :: "submit_request \<Rightarrow> json \<Rightarrow> response" where
  "job_reply rq parsed =
     Reply 200 [(''ok'', Json (JBool True)), (''jobId'', Json (JStr (sb_uuid_job rq))),
                (''result'', Json parsed)]"

text \<open>\<^verbatim>\<open>Object.values(ORDERS).forEach(o => { if (o.testId === tid) o.status = 'graded'; })\<close>.\<close>

definition mark_graded :: "(string \<rightharpoonup> order) \<Rightarrow> string \<Rightarrow> (string \<rightharpoonup> order)" where
  "mark_graded orders tid =
     (\<lambda>k. map_option (\<lambda>ord. if o_testId ord = JStr tid then ord\<lparr>o_status := Graded\<rparr> else ord)
                     (orders k))"

text \<open>\<^verbatim>\<open>app.post('/api/test/:testId/submit')\<close> of \<^verbatim>\<open>server.js\<close>.\<close>

definition submit :: "config \<Rightarrow> submit_request \<Rightarrow> state \<Rightarrow> response \<times> state \<times> ext_call list" where
  "submit cfg rq s =
     (let tid = sb_testId rq; test = js_get (TESTS s) tid in
      if \<not> truthy test then (error_reply 404 ''test not found'', s, [])
      else if sb_file rq then
        (case sb_transcription rq of
           TrRejected \<Rightarrow> (Threw FetchRejected, s, [TranscribeCall])
         | TrStatus text \<Rightarrow> (Threw (TranscriptionFailed text), s, [TranscribeCall])
         | TrBody trj \<Rightarrow>
             (case get_prop (Json trj) ''text'' of
                Inl e \<Rightarrow> (Threw e, s, [TranscribeCall])
              | Inr t \<Rightarrow>
                  (let transcript = or_else t (JStr []) in
                   case str (Json transcript) of
                     Inl e \<Rightarrow> (Threw e, s, [TranscribeCall])
                   | Inr ts \<Rightarrow>
                       (let messages = [(''system'', speakingSystem),
                                        (''user'', ''Transcript:\<newline>\<newline>'' @ ts)] in
                        case grade (parse cfg) (sb_chat rq) messages of
                          Inl e \<Rightarrow> (Threw e, s, [TranscribeCall, ChatCall messages])
                        | Inr parsed \<Rightarrow>
                            (job_reply rq parsed,
                             s\<lparr>SUBMISSIONS := (SUBMISSIONS s)(sb_uuid_job rq \<mapsto>
                                   new_job rq ''speaking'' (Transcript transcript) parsed),
                               ORDERS := mark_graded (ORDERS s) tid\<rparr>,
                             [TranscribeCall, ChatCall messages])))))
      else
        (let b = body_or_empty (sb_body rq);
             answers = or_else (opt_prop b ''answers'') (JArr []) in
         case get_prop test ''type'' of
           Inl e \<Rightarrow> (Threw e, s, [])
         | Inr ty \<Rightarrow>
             if ty = Json (JStr ''writing'') then
               (case and_then (essay_of answers) (userContent test) of
                  Inl e \<Rightarrow> (Threw e, s, [])
                | Inr content \<Rightarrow>
                    (let messages = [(''system'', writingSystem), (''user'', content)] in
                     case grade (parse cfg) (sb_chat rq) messages of
                       Inl e \<Rightarrow> (Threw e, s, [ChatCall messages])
                     | Inr parsed \<Rightarrow>
                         (job_reply rq parsed,
                          s\<lparr>SUBMISSIONS := (SUBMISSIONS s)(sb_uuid_job rq \<mapsto>
                                new_job rq ''writing'' (Answers answers) parsed),
                            ORDERS := mark_graded (ORDERS s) tid\<rparr>,
                          [ChatCall messages])))
             else (error_reply 400 ''Unsupported submission type'', s, [])))"

text \<open>
  The handler of \<^verbatim>\<open>api/test/[testId]/submit.js\<close>: multipart bodies are refused, the
  job identifier is \<^verbatim>\<open>(Math.random()+Date.now()).toString(36)\<close>, and \<^verbatim>\<open>ORDERS\<close> is
  not touched.
\<close>

definition multipart_refused :: string where
  "multipart_refused =
     ''Multipart uploads not supported in demo. Send transcript or use base64 + separate upload.''"

definition is_multipart :: "submit_request \<Rightarrow> bool" where
  "is_multipart rq =
     (sb_method rq = ''POST'' \<and>
      (case sb_content_type rq of
         None \<Rightarrow> False
       | Some ct \<Rightarrow> ct \<noteq> [] \<and> take 19 ct = ''multipart/form-data''))"

definition submit_api :: "config \<Rightarrow> submit_request \<Rightarrow> state \<Rightarrow> response \<times> state \<times> ext_call list" where
  "submit_api cfg rq s =
     (let tid = sb_testId rq; test = js_get (TESTS s) tid in
      if \<not> truthy test then (error_reply 404 ''test not found'', s, [])
      else if is_multipart rq then (error_reply 400 multipart_refused, s, [])
      else
        (let b = body_or_empty (sb_body rq);
             answers = or_else (opt_prop b ''answers'') (JArr []) in
         case get_prop test ''type'' of
           Inl e \<Rightarrow> (Threw e, s, [])
         | Inr ty \<Rightarrow>
             if ty = Json (JStr ''writing'') then
               (case and_then (essay_of answers) (userContent test) of
                  Inl e \<Rightarrow> (Threw e, s, [])
                | Inr content \<Rightarrow>
                    (let messages = [(''system'', writingSystem_api), (''user'', content)] in
                     case grade (parse cfg) (sb_chat rq) messages of
                       Inl e \<Rightarrow> (Threw e, s, [ChatCall messages])
                     | Inr parsed \<Rightarrow>
                         (job_reply rq parsed,
                          s\<lparr>SUBMISSIONS := (SUBMISSIONS s)(sb_uuid_job rq \<mapsto>
                                new_job rq ''writing'' (Answers answers) parsed)\<rparr>,
                          [ChatCall messages])))
             else (error_reply 400 ''Unsupported submission type'', s, [])))"

section \<open>The service as a whole\<close>

text \<open>
  Every route of \<^verbatim>\<open>server.js\<close> and every handler under \<^verbatim>\<open>api/\<close>. The routes that
  list the orders, fetch a test, fetch a job and report health only read the stores.
\<close>

datatype request =
    OrderTest order_request
  | OrderTestApi order_request
  | SubmitTest submit_request
  | SubmitTestApi submit_request
  | GetTest string
  | GetJob string
  | MyTests
  | Health

fun step :: "config \<Rightarrow> state \<Rightarrow> request \<Rightarrow> state" where
  "step cfg s (OrderTest rq) = fst (snd (order_test cfg rq s))"
| "step cfg s (OrderTestApi rq) = fst (snd (order_test_api cfg rq s))"
| "step cfg s (SubmitTest rq) = fst (snd (submit cfg rq s))"
| "step cfg s (SubmitTestApi rq) = fst (snd (submit_api cfg rq s))"
| "step cfg s (GetTest tid) = s"
| "step cfg s (GetJob jid) = s"
| "step cfg s MyTests = s"
| "step cfg s Health = s"

fun run :: "config \<Rightarrow> state \<Rightarrow> request list \<Rightarrow> state" where
  "run cfg s [] = s"
| "run cfg s (r # rs) = run cfg (step cfg s r) rs"

text \<open>
  \<^verbatim>\<open>uuidv4()\<close> is taken to mint an identifier that no stored order has: along a
  sequence of requests, each order request brings an order identifier that is new.
\<close>

fun mints_fresh :: "state \<Rightarrow> request \<Rightarrow> bool" where
  "mints_fresh s (OrderTest rq) = (ORDERS s (od_uuid_order rq) = None)"
| "mints_fresh s (OrderTestApi rq) = (ORDERS s (od_uuid_order rq) = None)"
| "mints_fresh s r = True"

fun fresh_run :: "config \<Rightarrow> state \<Rightarrow> request list \<Rightarrow> bool" where
  "fresh_run cfg s [] = True"
| "fresh_run cfg s (r # rs) = (mints_fresh s r \<and> fresh_run cfg (step cfg s r) rs)"

text \<open>The successive requests of one client to \<^verbatim>\<open>api/order-test.js\<close>, with the responses.\<close>

fun order_all :: "config \<Rightarrow> state \<Rightarrow> order_request list \<Rightarrow> response list \<times> state" where
  "order_all cfg s [] = ([], s)"
| "order_all cfg s (rq # rqs) =
     (let (rsp, s', calls) = order_test_api cfg rq s;
          (rsps, s'') = order_all cfg s' rqs
      in (rsp # rsps, s''))"

text \<open>
  An order request that gets past the method check and the check of \<^verbatim>\<open>testType\<close>,
  and the reply of the rate limiter.
\<close>

definition valid_order :: "order_request \<Rightarrow> bool" where
  "valid_order rq =
     (od_method rq = ''POST'' \<and> truthy (opt_prop (body_or_empty (od_body rq)) ''testType''))"

definition quota_reply :: response where
  "quota_reply = error_reply 429 ''Rate limit: max 5 free tests/day''"

definition passed_limiter :: "response list \<Rightarrow> nat" where
  "passed_limiter rsps = length (filter (\<lambda>rsp. rsp \<noteq> quota_reply) rsps)"

text \<open>
  The rate limiter seen along a sequence of requests of every kind: a request reaches the
  limiter of a client when it is a valid order sent to \<^verbatim>\<open>api/order-test.js\<close> by
  that client; it passes when it reaches the limiter and is not answered 429.
\<close>

fun reaches_limiter :: "string \<Rightarrow> request \<Rightarrow> bool" where
  "reaches_limiter ip (OrderTestApi rq) = (valid_order rq \<and> client_ip rq = ip)"
| "reaches_limiter ip r = False"

fun limiter_times :: "string \<Rightarrow> request list \<Rightarrow> int list" where
  "limiter_times ip [] = []"
| "limiter_times ip (OrderTestApi rq # rs) =
     (if valid_order rq \<and> client_ip rq = ip then od_now rq # limiter_times ip rs
      else limiter_times ip rs)"
| "limiter_times ip (r # rs) = limiter_times ip rs"

fun passes_limiter :: "config \<Rightarrow> string \<Rightarrow> state \<Rightarrow> request \<Rightarrow> bool" where
  "passes_limiter cfg ip s (OrderTestApi rq) =
     (valid_order rq \<and> client_ip rq = ip \<and> fst (order_test_api cfg rq s) \<noteq> quota_reply)"
| "passes_limiter cfg ip s r = False"

fun passed_in_run :: "config \<Rightarrow> string \<Rightarrow> state \<Rightarrow> request list \<Rightarrow> nat" where
  "passed_in_run cfg ip s [] = 0"
| "passed_in_run cfg ip s (r # rs) =
     (if passes_limiter cfg ip s r then 1 else 0) + passed_in_run cfg ip (step cfg s r) rs"

section \<open>Sample collaborators\<close>

text \<open>
  Concrete collaborators for evaluating the handlers: a parser that rejects every text, one
  that knows the single JSON text \<^verbatim>\<open>0\<close>, a chat endpoint that is unreachable and one
  that answers with a given content, and \<^verbatim>\<open>encodeURIComponent\<close> on strings of bytes
  (everything but letters, digits and \<^verbatim>\<open>-_.!~*'()\<close> is escaped).
\<close>

definition never_parses :: "string \<Rightarrow> json option" where
  "never_parses txt = None"

definition parses_zero :: "string \<Rightarrow> json option" where
  "parses_zero txt = (if txt = ''0'' then Some (JNum 0) else None)"

definition fetch_rejects :: chat where
  "fetch_rejects messages = Rejected"

definition chat_says :: "string \<Rightarrow> chat" where
  "chat_says txt messages =
     Body (JObj [(''choices'', JArr [JObj [(''message'', JObj [(''content'', JStr txt)])]])])"

definition hex_digit :: "nat \<Rightarrow> char" where
  "hex_digit d = (if d < 10 then char_of (48 + d) else char_of (55 + d))"

definition unreserved :: "char list" where
  "unreserved =
     ''ABCDEFGHIJKLMNOPQRSTUVWXYZabcdefghijklmnopqrstuvwxyz0123456789-_.!~*()'' @ [CHR 0x27]"

definition percent_encode :: "string \<Rightarrow> string" where
  "percent_encode txt =
     concat (map (\<lambda>c. if c \<in> set unreserved then [c]
                        else [CHR ''%'', hex_digit (of_char c div 16), hex_digit (of_char c mod 16)]) txt)"

definition sample_cfg :: config where
  "sample_cfg = \<lparr>parse = never_parses, encodeURIComponent = (\<lambda>txt. Some (percent_encode txt)),
                 SITE_BASE = ''''\<rparr>"

definition speaking_order :: "string \<Rightarrow> string \<Rightarrow> order_request" where
  "speaking_order oid tid =
     \<lparr>od_body = Json (JObj [(''testType'', JStr ''speaking'')]), od_uuid_order = oid,
      od_uuid_gen = tid, od_uuid_test = ''unused'', od_chat = fetch_rejects,
      od_iso = ''2024-01-01T00:00:00.000Z'', od_method = ''POST'',
      od_forwarded_for = Some ''203.0.113.7'', od_remoteAddress = None, od_now = 1704067200000\<rparr>"

definition writing_order :: "chat \<Rightarrow> string \<Rightarrow> string \<Rightarrow> order_request" where
  "writing_order fetch oid tid =
     \<lparr>od_body = Json (JObj [(''testType'', JStr ''writing'')]), od_uuid_order = oid,
      od_uuid_gen = tid, od_uuid_test = tid, od_chat = fetch,
      od_iso = ''2024-01-01T00:00:00.000Z'', od_method = ''POST'',
      od_forwarded_for = Some ''203.0.113.7'', od_remoteAddress = None, od_now = 1704067200000\<rparr>"

definition with_method :: "string \<Rightarrow> order_request \<Rightarrow> order_request" where
  "with_method m rq = rq\<lparr>od_method := m\<rparr>"

definition from_client :: "string \<Rightarrow> order_request \<Rightarrow> order_request" where
  "from_client ip rq = rq\<lparr>od_forwarded_for := Some ip\<rparr>"

definition essay_submit :: "string \<Rightarrow> jsval \<Rightarrow> chat \<Rightarrow> string \<Rightarrow> submit_request" where
  "essay_submit tid payload fetch jid =
     \<lparr>sb_testId = tid, sb_file = False, sb_body = payload, sb_transcription = TrRejected,
      sb_chat = fetch, sb_uuid_job = jid, sb_iso = ''2024-01-01T00:10:00.000Z'',
      sb_method = ''POST'', sb_content_type = Some ''application/json''\<rparr>"

definition audio_submit :: "string \<Rightarrow> string \<Rightarrow> chat \<Rightarrow> string \<Rightarrow> submit_request" where
  "audio_submit tid heard fetch jid =
     \<lparr>sb_testId = tid, sb_file = True, sb_body = Undefined,
      sb_transcription = TrBody (JObj [(''text'', JStr heard)]),
      sb_chat = fetch, sb_uuid_job = jid, sb_iso = ''2024-01-01T00:10:00.000Z'',
      sb_method = ''POST'', sb_content_type = Some ''multipart/form-data; boundary=x''\<rparr>"

section \<open>The writing fallback of the generator\<close>




section \<open>The speaking sample\<close>

text \<open>
  The generator of \<^verbatim>\<open>server.js\<close>, for every level, parser, endpoint and task count:
  no external call, and a fixed structure of three parts (two personal questions, a long turn
  with a cue and the time budgets 60 and 120, one discussion question) in which only the
  identifier and the level vary.
\<close>

lemma server_speaking_is_fixed:
  "generateTest parser fetch uid (JStr ''speaking'') level numTasks =
     (Inr (JObj [(''test_id'', JStr uid), (''type'', JStr ''speaking''), (''level'', level),
                 (''parts'', JArr
                    [JObj [(''part'', JNum 1),
                           (''items'', JArr [JObj [(''id'', JStr ''p1q1''),
                                                   (''q'', JStr ''What is your full name?'')],
                                             JObj [(''id'', JStr ''p1q2''),
                                                   (''q'', JStr ''Where are you from?'')]])],
                     JObj [(''part'', JNum 2), (''cue'', JStr ''Describe a memorable trip you had.''),
                           (''prep_time'', JNum 60), (''speak_time'', JNum 120)],
                     JObj [(''part'', JNum 3),
                           (''items'', JArr [JObj [(''id'', JStr ''p3q1''),
                                                   (''q'', JStr ''Why do people travel?'')]])]])]),
      [])"
  by (simp add: generateTest_def speaking_test_def)

lemma api_speaking_makes_no_call:
  "snd (generateTest_api parser fetch uid (JStr ''speaking'') level numTasks) = []"
  by (simp add: generateTest_api_def)

text \<open>
  C7 at the failing input: the generator of \<^verbatim>\<open>api/order-test.js\<close> asked for a speaking
  test. It makes no external call, and what it returns has two parts, one personal question and
  the long turn: there is no discussion part, which the generator of \<^verbatim>\<open>server.js\<close>
  returns as the third part for the same arguments.
\<close>

theorem api_speaking_has_two_parts:
  "generateTest_api never_parses fetch_rejects ''t1'' (JStr ''speaking'') (JStr ''ielts-6'') (JNum 1) =
     (Inr (JObj [(''test_id'', JStr ''t1''), (''type'', JStr ''speaking''), (''level'', JStr ''ielts-6''),
                 (''parts'', JArr
                    [JObj [(''part'', JNum 1),
                           (''items'', JArr [JObj [(''id'', JStr ''p1q1''),
                                                   (''q'', JStr ''What is your full name?'')]])],
                     JObj [(''part'', JNum 2), (''cue'', JStr ''Describe a memorable trip you had.''),
                           (''prep_time'', JNum 60), (''speak_time'', JNum 120)]])]),
      [])
   \<and> map_option (\<lambda>parts. length (case parts of JArr ps \<Rightarrow> ps | _ \<Rightarrow> []))
        (map_of (case fst (generateTest never_parses fetch_rejects ''t1'' (JStr ''speaking'')
                             (JStr ''ielts-6'') (JNum 1)) of
                   Inr (JObj fs) \<Rightarrow> fs | _ \<Rightarrow> [])
           ''parts'') = Some 3"
  by (simp add: generateTest_api_def generateTest_def speaking_test_api_def speaking_test_def)

section \<open>The rate limiter\<close>

lemma testType_json:
  assumes "truthy (opt_prop b ''testType'')"
  obtains tt where "opt_prop b ''testType'' = Json tt" and "truthy_json tt"
proof (cases "opt_prop b ''testType''")
  case Undefined
  with assms show ?thesis by simp
next
  case (Json tt)
  with assms that show ?thesis by simp
next
  case (Native n)
  have "opt_prop b ''testType'' \<noteq> Native n"
  proof (cases b)
    case (Json v)
    then show ?thesis
      by (cases v) (auto simp: opt_prop_def nullish_def inherited_member_def
            object_prototype_names_def split: option.splits)
  qed (simp_all add: opt_prop_def nullish_def)
  with Native show ?thesis by simp
qed

lemma store_order_RATE:
  "store_order cfg rq tt lvl g s = (rsp, s') \<Longrightarrow> RATE s' = RATE s"
  by (auto simp: store_order_def Let_def split: sum.splits option.splits)

lemma store_order_not_quota:
  "store_order cfg rq tt lvl g s = (rsp, s') \<Longrightarrow> rsp \<noteq> quota_reply"
  by (auto simp: store_order_def Let_def quota_reply_def error_reply_def split: sum.splits option.splits)

lemma order_api_rejects:
  assumes "valid_order rq" and "rate_slot (RATE s) (client_ip rq) = Some bucket"
    and "5 \<le> length (prune (od_now rq) bucket)"
  shows "order_test_api cfg rq s =
           (quota_reply, s\<lparr>RATE := (RATE s)(client_ip rq \<mapsto> prune (od_now rq) bucket)\<rparr>, [])"
proof -
  from assms(1) have m: "od_method rq = ''POST''"
    and t: "truthy (opt_prop (body_or_empty (od_body rq)) ''testType'')"
    by (simp_all add: valid_order_def)
  from t obtain tt where tt: "opt_prop (body_or_empty (od_body rq)) ''testType'' = Json tt" "truthy_json tt"
    by (rule testType_json)
  show ?thesis
    using m tt assms(2,3) by (simp add: order_test_api_def Let_def quota_reply_def)
qed

lemma order_api_accepts:
  assumes "valid_order rq" and "rate_slot (RATE s) (client_ip rq) = Some bucket"
    and "length (prune (od_now rq) bucket) < 5"
    and "order_test_api cfg rq s = (rsp, s', calls)"
  shows "rsp \<noteq> quota_reply \<and> RATE s' = (RATE s)(client_ip rq \<mapsto> prune (od_now rq) bucket @ [od_now rq])"
proof -
  from assms(1) have m: "od_method rq = ''POST''"
    and t: "truthy (opt_prop (body_or_empty (od_body rq)) ''testType'')"
    by (simp_all add: valid_order_def)
  from t obtain tt where tt: "opt_prop (body_or_empty (od_body rq)) ''testType'' = Json tt" "truthy_json tt"
    by (rule testType_json)
  show ?thesis
    using m tt assms(2,3,4)
    by (auto simp: order_test_api_def Let_def split: prod.splits
          dest: store_order_RATE store_order_not_quota)
qed


lemma prune_keeps:
  assumes "\<forall>t. P t \<longrightarrow> now - t < day_ms"
  shows "filter P (prune now bucket) = filter P bucket"
  using assms by (induction bucket) (auto simp: prune_def)

lemma order_api_step_count:
  assumes v: "valid_order rq" and slot: "rate_slot (RATE s) (client_ip rq) = Some bucket"
    and win: "\<forall>t. P t \<longrightarrow> od_now rq - t < day_ms" and own_t: "P (od_now rq)"
    and run: "order_test_api cfg rq s = (rsp, s', calls)"
  shows "\<exists>bucket'. RATE s' (client_ip rq) = Some bucket' \<and>
           length (filter P bucket) + (if rsp \<noteq> quota_reply then 1 else 0) \<le> length (filter P bucket')"
proof (cases "5 \<le> length (prune (od_now rq) bucket)")
  case True
  from order_api_rejects [OF v slot True, of cfg] run
  have "rsp = quota_reply" and "RATE s' (client_ip rq) = Some (prune (od_now rq) bucket)"
    by auto
  then show ?thesis using prune_keeps [OF win] by simp
next
  case False
  then have "length (prune (od_now rq) bucket) < 5" by simp
  from order_api_accepts [OF v slot this run]
  have "RATE s' (client_ip rq) = Some (prune (od_now rq) bucket @ [od_now rq])" by simp
  then show ?thesis using prune_keeps [OF win] own_t by simp
qed

lemma order_all_count:
  assumes "\<forall>rq \<in> set rqs. valid_order rq \<and> client_ip rq = ip"
    and "\<forall>rq \<in> set rqs. (\<forall>t. P t \<longrightarrow> od_now rq - t < day_ms) \<and> P (od_now rq)"
    and "rate_slot (RATE s) ip = Some bucket"
    and "order_all cfg s rqs = (rsps, s')"
  shows "\<exists>bucket'. rate_slot (RATE s') ip = Some bucket' \<and>
           length (filter P bucket) + passed_limiter rsps \<le> length (filter P bucket')"
  using assms
proof (induction rqs arbitrary: s bucket rsps s')
  case Nil
  then show ?case by (simp add: passed_limiter_def)
next
  case (Cons rq rqs)
  obtain rsp s1 calls where one: "order_test_api cfg rq s = (rsp, s1, calls)"
    by (cases "order_test_api cfg rq s") auto
  obtain rest s2 where more: "order_all cfg s1 rqs = (rest, s2)"
    by (cases "order_all cfg s1 rqs") auto
  from Cons.prems(4) one more have res: "rsps = rsp # rest" "s' = s2"
    by simp_all
  from Cons.prems(1) have v: "valid_order rq" and ip: "client_ip rq = ip" by simp_all
  from Cons.prems(2) have win: "\<forall>t. P t \<longrightarrow> od_now rq - t < day_ms" and pt: "P (od_now rq)"
    by simp_all
  from Cons.prems(3) ip have slot: "rate_slot (RATE s) (client_ip rq) = Some bucket" by simp
  from order_api_step_count [OF v slot win pt one] ip
  obtain b1 where b1: "RATE s1 ip = Some b1"
    and c1: "length (filter P bucket) + (if rsp \<noteq> quota_reply then 1 else 0) \<le> length (filter P b1)"
    by auto
  from Cons.prems(1,2) have r1: "\<forall>rq \<in> set rqs. valid_order rq \<and> client_ip rq = ip"
    and r2: "\<forall>rq \<in> set rqs. (\<forall>t. P t \<longrightarrow> od_now rq - t < day_ms) \<and> P (od_now rq)"
    by simp_all
  from b1 have slot1: "rate_slot (RATE s1) ip = Some b1" by (simp add: rate_slot_def)
  from Cons.IH [OF r1 r2 slot1 more]
  obtain b2 where b2: "rate_slot (RATE s2) ip = Some b2"
    and c2: "length (filter P b1) + passed_limiter rest \<le> length (filter P b2)"
    by auto
  have "passed_limiter rsps = (if rsp \<noteq> quota_reply then 1 else 0) + passed_limiter rest"
    using res by (simp add: passed_limiter_def)
  with b2 c1 c2 res show ?case by auto
qed

lemma sixth_request_rejected:
  assumes all_ok: "\<forall>rq \<in> set (rq6 # rqs). valid_order rq \<and> client_ip rq = ip"
    and window: "\<forall>a \<in> set (rq6 # rqs). \<forall>b \<in> set (rq6 # rqs). od_now b - od_now a < day_ms"
    and slot: "rate_slot (RATE s) ip = Some bucket"
    and run: "order_all cfg s rqs = (rsps, s')"
    and five: "5 \<le> passed_limiter rsps"
  shows "fst (order_test_api cfg rq6 s') = quota_reply"
proof -
  define P where "P t \<longleftrightarrow> (\<exists>a \<in> set (rq6 # rqs). t = od_now a)" for t
  have stable: "\<forall>rq \<in> set (rq6 # rqs). (\<forall>t. P t \<longrightarrow> od_now rq - t < day_ms) \<and> P (od_now rq)"
    using window unfolding P_def by blast
  then have st: "\<forall>rq \<in> set rqs. (\<forall>t. P t \<longrightarrow> od_now rq - t < day_ms) \<and> P (od_now rq)"
    by simp
  from all_ok have ok: "\<forall>rq \<in> set rqs. valid_order rq \<and> client_ip rq = ip" by simp
  from order_all_count [OF ok st slot run]
  obtain b where b: "rate_slot (RATE s') ip = Some b"
    and cnt: "length (filter P bucket) + passed_limiter rsps \<le> length (filter P b)"
    by auto
  from stable have w6: "\<forall>t. P t \<longrightarrow> od_now rq6 - t < day_ms" by simp
  have "length (filter P b) \<le> length (prune (od_now rq6) b)"
    using prune_keeps [OF w6, of b] length_filter_le [of P "prune (od_now rq6) b"] by simp
  with cnt five have full: "5 \<le> length (prune (od_now rq6) b)" by simp
  from all_ok have v6: "valid_order rq6" and ip6: "client_ip rq6 = ip" by simp_all
  from b ip6 have slot6: "rate_slot (RATE s') (client_ip rq6) = Some b" by simp
  from order_api_rejects [OF v6 slot6 full, of cfg] show ?thesis by simp
qed


lemma order_api_invalid:
  assumes "\<not> valid_order rq" and "order_test_api cfg rq s = (rsp, s', calls)"
  shows "s' = s \<and> rsp \<noteq> quota_reply"
proof (cases "od_method rq = ''POST''")
  case False
  with assms(2) show ?thesis
    by (auto simp: order_test_api_def quota_reply_def error_reply_def)
next
  case True
  with assms(1) have "\<not> truthy (opt_prop (body_or_empty (od_body rq)) ''testType'')"
    by (simp add: valid_order_def)
  with True assms(2) show ?thesis
    by (cases "opt_prop (body_or_empty (od_body rq)) ''testType''")
       (auto simp: order_test_api_def Let_def quota_reply_def error_reply_def)
qed

lemma order_api_other_clients:
  assumes "order_test_api cfg rq s = (rsp, s', calls)" and "ip \<noteq> client_ip rq"
  shows "RATE s' ip = RATE s ip"
proof (cases "valid_order rq")
  case False
  from order_api_invalid [OF False assms(1)] show ?thesis by simp
next
  case True
  show ?thesis
  proof (cases "rate_slot (RATE s) (client_ip rq)")
    case None
    from True have m: "od_method rq = ''POST''"
      and t: "truthy (opt_prop (body_or_empty (od_body rq)) ''testType'')"
      by (simp_all add: valid_order_def)
    from t obtain tt where "opt_prop (body_or_empty (od_body rq)) ''testType'' = Json tt" "truthy_json tt"
      by (rule testType_json)
    with m None assms(1) show ?thesis
      by (simp add: order_test_api_def Let_def)
  next
    case (Some bucket)
    show ?thesis
    proof (cases "5 \<le> length (prune (od_now rq) bucket)")
      case True
      from order_api_rejects [OF \<open>valid_order rq\<close> Some True, of cfg] assms show ?thesis
        by auto
    next
      case False
      then have "length (prune (od_now rq) bucket) < 5" by simp
      from order_api_accepts [OF \<open>valid_order rq\<close> Some this assms(1)] assms(2) show ?thesis
        by simp
    qed
  qed
qed

lemma order_test_RATE:
  "order_test cfg rq s = (rsp, s', calls) \<Longrightarrow> RATE s' = RATE s"
  by (auto simp: order_test_def Let_def split: jsval.splits if_splits prod.splits
        dest: store_order_RATE)

lemma submit_RATE:
  "submit cfg rq s = (rsp, s', calls) \<Longrightarrow> RATE s' = RATE s"
  by (auto simp: submit_def Let_def split: if_splits tr_result.splits sum.splits)

lemma submit_api_RATE:
  "submit_api cfg rq s = (rsp, s', calls) \<Longrightarrow> RATE s' = RATE s"
  by (auto simp: submit_api_def Let_def split: if_splits sum.splits)

lemma step_elsewhere:
  assumes "\<not> reaches_limiter ip r"
  shows "RATE (step cfg s r) ip = RATE s ip"
proof (cases r)
  case (OrderTest rq)
  obtain rsp s' calls where "order_test cfg rq s = (rsp, s', calls)"
    by (cases "order_test cfg rq s") auto
  from order_test_RATE [OF this] this OrderTest show ?thesis by simp
next
  case (OrderTestApi rq)
  obtain rsp s' calls where run: "order_test_api cfg rq s = (rsp, s', calls)"
    by (cases "order_test_api cfg rq s") auto
  show ?thesis
  proof (cases "valid_order rq")
    case False
    from order_api_invalid [OF False run] run OrderTestApi show ?thesis by simp
  next
    case True
    with assms OrderTestApi have "ip \<noteq> client_ip rq" by auto
    from order_api_other_clients [OF run this] run OrderTestApi show ?thesis by simp
  qed
next
  case (SubmitTest rq)
  obtain rsp s' calls where "submit cfg rq s = (rsp, s', calls)"
    by (cases "submit cfg rq s") auto
  from submit_RATE [OF this] this SubmitTest show ?thesis by simp
next
  case (SubmitTestApi rq)
  obtain rsp s' calls where "submit_api cfg rq s = (rsp, s', calls)"
    by (cases "submit_api cfg rq s") auto
  from submit_api_RATE [OF this] this SubmitTestApi show ?thesis by simp
qed simp_all

lemma step_count:
  assumes slot: "rate_slot (RATE s) ip = Some bucket"
    and win: "\<forall>t \<in> set (limiter_times ip [r]). (\<forall>u. P u \<longrightarrow> t - u < day_ms) \<and> P t"
  shows "\<exists>bucket'. rate_slot (RATE (step cfg s r)) ip = Some bucket' \<and>
           length (filter P bucket) + (if passes_limiter cfg ip s r then 1 else 0)
             \<le> length (filter P bucket')"
proof (cases "reaches_limiter ip r")
  case False
  from step_elsewhere [OF False, of cfg s] slot
  have "rate_slot (RATE (step cfg s r)) ip = Some bucket"
    by (simp add: rate_slot_def)
  moreover from False have "\<not> passes_limiter cfg ip s r"
    by (cases r) auto
  ultimately show ?thesis by simp
next
  case True
  then obtain rq where r: "r = OrderTestApi rq" and v: "valid_order rq" and ip: "client_ip rq = ip"
    by (cases r) auto
  obtain rsp s' calls where run: "order_test_api cfg rq s = (rsp, s', calls)"
    by (cases "order_test_api cfg rq s") auto
  from win r v ip have w: "\<forall>u. P u \<longrightarrow> od_now rq - u < day_ms" and p: "P (od_now rq)"
    by simp_all
  from slot ip have slot': "rate_slot (RATE s) (client_ip rq) = Some bucket" by simp
  from order_api_step_count [OF v slot' w p run] ip
  obtain b where b: "RATE s' ip = Some b"
    and c: "length (filter P bucket) + (if rsp \<noteq> quota_reply then 1 else 0) \<le> length (filter P b)"
    by auto
  from b have "rate_slot (RATE s') ip = Some b" by (simp add: rate_slot_def)
  with c r v ip run show ?thesis by auto
qed

lemma limiter_times_Cons:
  "set (limiter_times ip (r # rs)) = set (limiter_times ip [r]) \<union> set (limiter_times ip rs)"
  by (cases r) auto

lemma run_count:
  assumes "\<forall>t \<in> set (limiter_times ip reqs). (\<forall>u. P u \<longrightarrow> t - u < day_ms) \<and> P t"
    and "rate_slot (RATE s) ip = Some bucket"
  shows "\<exists>bucket'. rate_slot (RATE (run cfg s reqs)) ip = Some bucket' \<and>
           length (filter P bucket) + passed_in_run cfg ip s reqs \<le> length (filter P bucket')"
  using assms
proof (induction reqs arbitrary: s bucket)
  case Nil
  then show ?case by simp
next
  case (Cons r reqs)
  from Cons.prems(1) have one: "\<forall>t \<in> set (limiter_times ip [r]). (\<forall>u. P u \<longrightarrow> t - u < day_ms) \<and> P t"
    and more: "\<forall>t \<in> set (limiter_times ip reqs). (\<forall>u. P u \<longrightarrow> t - u < day_ms) \<and> P t"
    unfolding limiter_times_Cons [of ip r reqs] by blast+
  from step_count [OF Cons.prems(2) one, of cfg]
  obtain b1 where b1: "rate_slot (RATE (step cfg s r)) ip = Some b1"
    and c1: "length (filter P bucket) + (if passes_limiter cfg ip s r then 1 else 0) \<le> length (filter P b1)"
    by blast
  from Cons.IH [OF more b1]
  obtain b2 where b2: "rate_slot (RATE (run cfg (step cfg s r) reqs)) ip = Some b2"
    and c2: "length (filter P b1) + passed_in_run cfg ip (step cfg s r) reqs \<le> length (filter P b2)"
    by blast
  from b2 c1 c2 show ?case by auto
qed

lemma further_request_rejected:
  assumes v6: "valid_order rq6" and ip6: "client_ip rq6 = ip"
    and window: "\<forall>a \<in> set (od_now rq6 # limiter_times ip reqs).
                 \<forall>b \<in> set (od_now rq6 # limiter_times ip reqs). b - a < day_ms"
    and slot: "rate_slot (RATE s) ip = Some bucket"
    and five: "5 \<le> passed_in_run cfg ip s reqs"
  shows "fst (order_test_api cfg rq6 (run cfg s reqs)) = quota_reply"
proof -
  define P where "P t \<longleftrightarrow> t \<in> set (od_now rq6 # limiter_times ip reqs)" for t
  have st: "\<forall>t \<in> set (limiter_times ip reqs). (\<forall>u. P u \<longrightarrow> t - u < day_ms) \<and> P t"
    using window unfolding P_def by auto
  from run_count [OF st slot, of cfg]
  obtain b where b: "rate_slot (RATE (run cfg s reqs)) ip = Some b"
    and cnt: "length (filter P bucket) + passed_in_run cfg ip s reqs \<le> length (filter P b)"
    by blast
  have w6: "\<forall>t. P t \<longrightarrow> od_now rq6 - t < day_ms"
    using window unfolding P_def by auto
  have "length (filter P b) \<le> length (prune (od_now rq6) b)"
    using prune_keeps [OF w6, of b] length_filter_le [of P "prune (od_now rq6) b"] by simp
  with cnt five have full: "5 \<le> length (prune (od_now rq6) b)" by simp
  from b ip6 have slot6: "rate_slot (RATE (run cfg s reqs)) (client_ip rq6) = Some b" by simp
  from order_api_rejects [OF v6 slot6 full, of cfg] show ?thesis by simp
qed

lemma store_order_reply_stateless:
  "store_order cfg rq tt lvl g s = (rsp, s') \<Longrightarrow> store_order cfg rq tt lvl g s0 = (rsp0, s0')
     \<Longrightarrow> rsp = rsp0"
  by (auto simp: store_order_def Let_def split: sum.splits option.splits)

lemma server_order_unlimited:
  "fst (order_test cfg rq s) = fst (order_test cfg rq s0)
   \<and> fst (order_test cfg rq s) \<noteq> quota_reply
   \<and> RATE (fst (snd (order_test cfg rq s))) = RATE s"
proof -
  obtain rsp s' calls where run: "order_test cfg rq s = (rsp, s', calls)"
    by (cases "order_test cfg rq s") auto
  have a: "fst (order_test cfg rq s) = fst (order_test cfg rq s0)"
    by (auto simp: order_test_def Let_def split: jsval.splits prod.splits
          dest: store_order_reply_stateless)
  have b: "rsp \<noteq> quota_reply"
    using run
    by (auto simp: order_test_def Let_def quota_reply_def error_reply_def
          split: jsval.splits if_splits prod.splits dest: store_order_not_quota)
  from a b order_test_RATE [OF run] run show ?thesis by simp
qed

text \<open>
  C1, as the claim states it, fails on \<^verbatim>\<open>server.js\<close>, whose order route has no rate
  limiter: after five orders of one client at one instant, all stored, the sixth is accepted too.
\<close>

theorem server_accepts_sixth_counterexample:
  "fst (order_test sample_cfg (speaking_order ''o6'' ''t6'')
         (run sample_cfg init_state
            [OrderTest (speaking_order ''o1'' ''t1''), OrderTest (speaking_order ''o2'' ''t2''),
             OrderTest (speaking_order ''o3'' ''t3''), OrderTest (speaking_order ''o4'' ''t4''),
             OrderTest (speaking_order ''o5'' ''t5'')]))
     = Reply 200 [(''ok'', Json (JBool True)), (''orderId'', Json (JStr ''o6'')),
                  (''testId'', Json (JStr ''t6'')), (''testUrl'', Json (JStr ''/?testId=t6''))]
   \<and> map (\<lambda>k. map_option o_status
              (ORDERS (run sample_cfg init_state
                 [OrderTest (speaking_order ''o1'' ''t1''), OrderTest (speaking_order ''o2'' ''t2''),
                  OrderTest (speaking_order ''o3'' ''t3''), OrderTest (speaking_order ''o4'' ''t4''),
                  OrderTest (speaking_order ''o5'' ''t5'')]) k))
         [''o1'', ''o2'', ''o3'', ''o4'', ''o5'']
     = [Some Ready, Some Ready, Some Ready, Some Ready, Some Ready]"
  by code_simp

text \<open>
  C1 amended. The handler of \<^verbatim>\<open>api/order-test.js\<close>, for a POST request with a
  \<^verbatim>\<open>testType\<close> from a client whose identifier is not the name of a member that objects
  inherit: the client's bucket is pruned to the timestamps less than 24 hours old; with five
  or more of them left the request is answered 429, nothing is called or stored and the pruned
  bucket holds no new entry; with fewer the request passes the limiter and the current
  timestamp is appended, whatever the generation then does. A bucket that let a request pass
  holds at most five entries, all less than 24 hours old. Along any sequence of requests of
  any kind to any route, by this and by other clients, once five requests of the client have
  passed the limiter, a further request of the client is answered 429 when it and the
  client's requests that reached the limiter lie within 24 hours of each other. The order
  route of \<^verbatim>\<open>server.js\<close> has no rate limiter: for every request and every state its
  answer is the one it would give in any other state, it is never the 429, and it leaves the
  buckets as they are.
\<close>

theorem rate_limiter_api:
  assumes "valid_order rq" and "rate_slot (RATE s) (client_ip rq) = Some bucket"
    and "order_test_api cfg rq s = (rsp, s', calls)"
  shows "(\<forall>t. t \<in> set (prune (od_now rq) bucket) \<longleftrightarrow> t \<in> set bucket \<and> od_now rq - t < 86400000)
    \<and> (5 \<le> length (prune (od_now rq) bucket) \<longrightarrow>
          rsp = quota_reply \<and> calls = [] \<and>
          s' = s\<lparr>RATE := (RATE s)(client_ip rq \<mapsto> prune (od_now rq) bucket)\<rparr>)
    \<and> (length (prune (od_now rq) bucket) < 5 \<longrightarrow>
          rsp \<noteq> quota_reply \<and>
          RATE s' = (RATE s)(client_ip rq \<mapsto> prune (od_now rq) bucket @ [od_now rq]))
    \<and> (rsp \<noteq> quota_reply \<longrightarrow>
          (\<exists>b. RATE s' (client_ip rq) = Some b \<and> length b \<le> 5 \<and>
               (\<forall>t \<in> set b. od_now rq - t < 86400000)))
    \<and> (\<forall>rqs rq6 rsps s6.
          (\<forall>r \<in> set (rq6 # rqs). valid_order r \<and> client_ip r = client_ip rq) \<and>
          (\<forall>a \<in> set (rq6 # rqs). \<forall>b \<in> set (rq6 # rqs). od_now b - od_now a < 86400000) \<and>
          order_all cfg s rqs = (rsps, s6) \<and> 5 \<le> passed_limiter rsps \<longrightarrow>
          fst (order_test_api cfg rq6 s6) = quota_reply)
    \<and> (\<forall>reqs rq6.
          valid_order rq6 \<and> client_ip rq6 = client_ip rq \<and>
          (\<forall>a \<in> set (od_now rq6 # limiter_times (client_ip rq) reqs).
             \<forall>b \<in> set (od_now rq6 # limiter_times (client_ip rq) reqs). b - a < 86400000) \<and>
          5 \<le> passed_in_run cfg (client_ip rq) s reqs \<longrightarrow>
          fst (order_test_api cfg rq6 (run cfg s reqs)) = quota_reply)
    \<and> (\<forall>rq0 s0 s1.
          fst (order_test cfg rq0 s0) = fst (order_test cfg rq0 s1) \<and>
          fst (order_test cfg rq0 s0) \<noteq> quota_reply \<and>
          RATE (fst (snd (order_test cfg rq0 s0))) = RATE s0)"
proof -
  let ?kept = "prune (od_now rq) bucket"
  have day: "day_ms = 86400000" by (simp add: day_ms_def)
  have p1: "\<forall>t. t \<in> set ?kept \<longleftrightarrow> t \<in> set bucket \<and> od_now rq - t < 86400000"
    by (simp add: prune_def day)
  have p2: "5 \<le> length ?kept \<longrightarrow> rsp = quota_reply \<and> calls = [] \<and>
              s' = s\<lparr>RATE := (RATE s)(client_ip rq \<mapsto> ?kept)\<rparr>"
    using order_api_rejects [OF assms(1,2), of cfg] assms(3) by auto
  have p3: "length ?kept < 5 \<longrightarrow> rsp \<noteq> quota_reply \<and>
              RATE s' = (RATE s)(client_ip rq \<mapsto> ?kept @ [od_now rq])"
    using order_api_accepts [OF assms(1,2) _ assms(3)] by blast
  have p4: "rsp \<noteq> quota_reply \<longrightarrow>
          (\<exists>b. RATE s' (client_ip rq) = Some b \<and> length b \<le> 5 \<and>
               (\<forall>t \<in> set b. od_now rq - t < 86400000))"
  proof
    assume passed: "rsp \<noteq> quota_reply"
    with p2 have short: "length ?kept < 5" by auto
    with p3 have "RATE s' (client_ip rq) = Some (?kept @ [od_now rq])" by simp
    moreover have "length (?kept @ [od_now rq]) \<le> 5" using short by simp
    moreover have "\<forall>t \<in> set (?kept @ [od_now rq]). od_now rq - t < 86400000"
      using p1 by auto
    ultimately show "\<exists>b. RATE s' (client_ip rq) = Some b \<and> length b \<le> 5 \<and>
               (\<forall>t \<in> set b. od_now rq - t < 86400000)" by blast
  qed
  have p5: "\<forall>rqs rq6 rsps s6.
          (\<forall>r \<in> set (rq6 # rqs). valid_order r \<and> client_ip r = client_ip rq) \<and>
          (\<forall>a \<in> set (rq6 # rqs). \<forall>b \<in> set (rq6 # rqs). od_now b - od_now a < 86400000) \<and>
          order_all cfg s rqs = (rsps, s6) \<and> 5 \<le> passed_limiter rsps \<longrightarrow>
          fst (order_test_api cfg rq6 s6) = quota_reply"
    using sixth_request_rejected [OF _ _ assms(2)] unfolding day by blast
  have p6: "\<forall>reqs rq6.
          valid_order rq6 \<and> client_ip rq6 = client_ip rq \<and>
          (\<forall>a \<in> set (od_now rq6 # limiter_times (client_ip rq) reqs).
             \<forall>b \<in> set (od_now rq6 # limiter_times (client_ip rq) reqs). b - a < 86400000) \<and>
          5 \<le> passed_in_run cfg (client_ip rq) s reqs \<longrightarrow>
          fst (order_test_api cfg rq6 (run cfg s reqs)) = quota_reply"
    using further_request_rejected [OF _ _ _ assms(2)] unfolding day by blast
  have p7: "\<forall>rq0 s0 s1.
          fst (order_test cfg rq0 s0) = fst (order_test cfg rq0 s1) \<and>
          fst (order_test cfg rq0 s0) \<noteq> quota_reply \<and>
          RATE (fst (snd (order_test cfg rq0 s0))) = RATE s0"
    using server_order_unlimited by blast
  from p1 p2 p3 p4 p5 p6 p7 show ?thesis by blast
qed

theorem rate_limiter_api_witness:
  "valid_order (speaking_order ''o1'' ''t1'')
   \<and> rate_slot (RATE init_state) (client_ip (speaking_order ''o1'' ''t1'')) = Some []
   \<and> fst (order_test_api sample_cfg (speaking_order ''o1'' ''t1'') init_state) \<noteq> quota_reply
   \<and> RATE (fst (snd (order_test_api sample_cfg (speaking_order ''o1'' ''t1'') init_state)))
        ''203.0.113.7'' = Some [1704067200000]
   \<and> fst (order_test_api sample_cfg (speaking_order ''o6'' ''t6'')
           (snd (order_all sample_cfg init_state
                   [speaking_order ''o1'' ''t1'', speaking_order ''o2'' ''t2'',
                    speaking_order ''o3'' ''t3'', speaking_order ''o4'' ''t4'',
                    speaking_order ''o5'' ''t5'']))) = quota_reply
   \<and> fst (order_test_api sample_cfg (speaking_order ''o6'' ''t6'')
           (run sample_cfg init_state
              [OrderTestApi (speaking_order ''o1'' ''t1''), GetTest ''t1'',
               OrderTestApi (with_method ''GET'' (speaking_order ''x1'' ''y1'')),
               OrderTestApi (speaking_order ''o2'' ''t2''),
               OrderTest (speaking_order ''s1'' ''u1''),
               OrderTestApi (from_client ''198.51.100.9'' (speaking_order ''c1'' ''d1'')),
               OrderTestApi (speaking_order ''o3'' ''t3''),
               SubmitTestApi (essay_submit ''t1'' (Json (JObj [])) (chat_says ''Band 1.'') ''j1''),
               OrderTestApi (speaking_order ''o4'' ''t4''), MyTests,
               OrderTestApi (speaking_order ''o5'' ''t5'')])) = quota_reply
   \<and> fst (order_test sample_cfg (speaking_order ''o6'' ''t6'') init_state) \<noteq> quota_reply"
proof -
  let ?rq = "speaking_order ''o1'' ''t1''"
  let ?rqs = "[speaking_order ''o1'' ''t1'', speaking_order ''o2'' ''t2'',
               speaking_order ''o3'' ''t3'', speaking_order ''o4'' ''t4'',
               speaking_order ''o5'' ''t5'']"
  let ?reqs = "[OrderTestApi (speaking_order ''o1'' ''t1''), GetTest ''t1'',
               OrderTestApi (with_method ''GET'' (speaking_order ''x1'' ''y1'')),
               OrderTestApi (speaking_order ''o2'' ''t2''),
               OrderTest (speaking_order ''s1'' ''u1''),
               OrderTestApi (from_client ''198.51.100.9'' (speaking_order ''c1'' ''d1'')),
               OrderTestApi (speaking_order ''o3'' ''t3''),
               SubmitTestApi (essay_submit ''t1'' (Json (JObj [])) (chat_says ''Band 1.'') ''j1''),
               OrderTestApi (speaking_order ''o4'' ''t4''), MyTests,
               OrderTestApi (speaking_order ''o5'' ''t5'')]"
  let ?out = "order_test_api sample_cfg ?rq init_state"
  let ?all = "order_all sample_cfg init_state ?rqs"
  have v: "valid_order (speaking_order a b)" for a b
    by (simp add: valid_order_def speaking_order_def body_or_empty_def opt_prop_def nullish_def)
  have ip: "client_ip (speaking_order a b) = ''203.0.113.7''" for a b
    by (simp add: client_ip_def speaking_order_def)
  have now: "od_now (speaking_order a b) = 1704067200000" for a b
    by (simp add: speaking_order_def)
  have slot: "rate_slot (RATE init_state) (client_ip ?rq) = Some []"
    by (simp add: ip rate_slot_def init_state_def object_prototype_names_def)
  have out: "?out = (fst ?out, fst (snd ?out), snd (snd ?out))"
    by simp
  have short: "length (prune (od_now ?rq) []) < 5"
    by (simp add: prune_def)
  have five: "5 \<le> passed_limiter (fst ?all)"
    by code_simp
  have same: "\<forall>r \<in> set (speaking_order ''o6'' ''t6'' # ?rqs). valid_order r \<and> client_ip r = client_ip ?rq"
    by (simp add: v ip)
  have near: "\<forall>a \<in> set (speaking_order ''o6'' ''t6'' # ?rqs).
              \<forall>b \<in> set (speaking_order ''o6'' ''t6'' # ?rqs). od_now b - od_now a < 86400000"
    by (simp add: now)
  have all: "?all = (fst ?all, snd ?all)"
    by simp
  have times: "limiter_times ''203.0.113.7'' ?reqs =
                 [1704067200000, 1704067200000, 1704067200000, 1704067200000, 1704067200000]"
    by code_simp
  have close: "\<forall>a \<in> set (od_now (speaking_order ''o6'' ''t6'') # limiter_times (client_ip ?rq) ?reqs).
               \<forall>b \<in> set (od_now (speaking_order ''o6'' ''t6'') # limiter_times (client_ip ?rq) ?reqs).
                 b - a < 86400000"
    unfolding ip times by (simp add: now)
  have passed: "5 \<le> passed_in_run sample_cfg (client_ip ?rq) init_state ?reqs"
    unfolding ip by code_simp
  have v6: "valid_order (speaking_order ''o6'' ''t6'') \<and>
            client_ip (speaking_order ''o6'' ''t6'') = client_ip ?rq"
    by (simp add: v ip)
  note contract = rate_limiter_api [OF v slot out]
  from contract short
  have "fst ?out \<noteq> quota_reply"
    and "RATE (fst (snd ?out)) = (RATE init_state)(client_ip ?rq \<mapsto> prune (od_now ?rq) [] @ [od_now ?rq])"
    by blast+
  then have a: "fst ?out \<noteq> quota_reply" and b: "RATE (fst (snd ?out)) ''203.0.113.7'' = Some [1704067200000]"
    by (simp_all add: ip now prune_def)
  from contract same near all five
  have c: "fst (order_test_api sample_cfg (speaking_order ''o6'' ''t6'') (snd ?all)) = quota_reply"
    by blast
  from contract v6 close passed
  have d: "fst (order_test_api sample_cfg (speaking_order ''o6'' ''t6'') (run sample_cfg init_state ?reqs))
             = quota_reply"
    by blast
  from contract
  have e: "fst (order_test sample_cfg (speaking_order ''o6'' ''t6'') init_state) \<noteq> quota_reply"
    by blast
  from v slot a b c d e show ?thesis by blast
qed

section \<open>Submissions\<close>

lemma grade_raw:
  assumes "callOpenAIChat fetch messages = Inr (JStr txt)" and "parser txt = None"
  shows "grade parser fetch messages = Inr (JObj [(''raw'', JStr txt)])"
  using assms by (simp add: grade_def and_then_def JSON_parse_def)

lemma submit_speaking_graded:
  assumes "truthy (js_get (TESTS s) (sb_testId rq))" and "sb_file rq"
    and "sb_transcription rq = TrBody trj" and "get_prop (Json trj) ''text'' = Inr t"
    and "str (Json (or_else t (JStr []))) = Inr heard"
    and "grade (parse cfg) (sb_chat rq)
           [(''system'', speakingSystem), (''user'', ''Transcript:\<newline>\<newline>'' @ heard)] = Inr parsed"
  shows "submit cfg rq s =
           (job_reply rq parsed,
            s\<lparr>SUBMISSIONS := (SUBMISSIONS s)(sb_uuid_job rq \<mapsto>
                  new_job rq ''speaking'' (Transcript (or_else t (JStr []))) parsed),
              ORDERS := mark_graded (ORDERS s) (sb_testId rq)\<rparr>,
            [TranscribeCall,
             ChatCall [(''system'', speakingSystem), (''user'', ''Transcript:\<newline>\<newline>'' @ heard)]])"
  using assms by (simp add: submit_def Let_def)

lemma submit_writing_graded:
  assumes "truthy (js_get (TESTS s) (sb_testId rq))" and "\<not> sb_file rq"
    and "get_prop (js_get (TESTS s) (sb_testId rq)) ''type'' = Inr (Json (JStr ''writing''))"
    and "and_then (essay_of (or_else (opt_prop (body_or_empty (sb_body rq)) ''answers'') (JArr [])))
           (userContent (js_get (TESTS s) (sb_testId rq))) = Inr content"
    and "grade (parse cfg) (sb_chat rq) [(''system'', writingSystem), (''user'', content)] = Inr parsed"
  shows "submit cfg rq s =
           (job_reply rq parsed,
            s\<lparr>SUBMISSIONS := (SUBMISSIONS s)(sb_uuid_job rq \<mapsto>
                  new_job rq ''writing''
                    (Answers (or_else (opt_prop (body_or_empty (sb_body rq)) ''answers'') (JArr [])))
                    parsed),
              ORDERS := mark_graded (ORDERS s) (sb_testId rq)\<rparr>,
            [ChatCall [(''system'', writingSystem), (''user'', content)]])"
  using assms by (simp add: submit_def Let_def)

lemma submit_api_writing_graded:
  assumes "truthy (js_get (TESTS s) (sb_testId rq))" and "\<not> is_multipart rq"
    and "get_prop (js_get (TESTS s) (sb_testId rq)) ''type'' = Inr (Json (JStr ''writing''))"
    and "and_then (essay_of (or_else (opt_prop (body_or_empty (sb_body rq)) ''answers'') (JArr [])))
           (userContent (js_get (TESTS s) (sb_testId rq))) = Inr content"
    and "grade (parse cfg) (sb_chat rq) [(''system'', writingSystem_api), (''user'', content)] = Inr parsed"
  shows "submit_api cfg rq s =
           (job_reply rq parsed,
            s\<lparr>SUBMISSIONS := (SUBMISSIONS s)(sb_uuid_job rq \<mapsto>
                  new_job rq ''writing''
                    (Answers (or_else (opt_prop (body_or_empty (sb_body rq)) ''answers'') (JArr [])))
                    parsed)\<rparr>,
            [ChatCall [(''system'', writingSystem_api), (''user'', content)]])"
  using assms by (simp add: submit_api_def Let_def)

text \<open>
  C5. A submission for a test that the lookup finds, whose grading call returns a text that
  does not parse as JSON, is answered 200 with the result \<^verbatim>\<open>{raw: text}\<close>, and the job
  stored under the job identifier has that result. This holds on the speaking path of
  \<^verbatim>\<open>server.js\<close> (an audio file whose transcription succeeded, graded on the transcript),
  on its writing path (no audio file, a test of type \<^verbatim>\<open>writing\<close>, graded on the
  instruction built from the prompt and the essay) and on the writing path of the handler
  under \<^verbatim>\<open>api/\<close> (no multipart body).
\<close>

theorem grading_keeps_raw_text:
  assumes "truthy (js_get (TESTS s) (sb_testId rq))" and "parse cfg txt = None"
  shows "(sb_file rq \<and> sb_transcription rq = TrBody trj \<and> get_prop (Json trj) ''text'' = Inr t \<and>
          str (Json (or_else t (JStr []))) = Inr heard \<and>
          callOpenAIChat (sb_chat rq)
            [(''system'', speakingSystem), (''user'', ''Transcript:\<newline>\<newline>'' @ heard)] = Inr (JStr txt)
          \<longrightarrow>
            fst (submit cfg rq s) =
              Reply 200 [(''ok'', Json (JBool True)), (''jobId'', Json (JStr (sb_uuid_job rq))),
                         (''result'', Json (JObj [(''raw'', JStr txt)]))] \<and>
            map_option j_result (SUBMISSIONS (fst (snd (submit cfg rq s))) (sb_uuid_job rq)) =
              Some (JObj [(''raw'', JStr txt)]) \<and>
            snd (snd (submit cfg rq s)) =
              [TranscribeCall,
               ChatCall [(''system'', speakingSystem), (''user'', ''Transcript:\<newline>\<newline>'' @ heard)]])
    \<and> (\<not> sb_file rq \<and>
          get_prop (js_get (TESTS s) (sb_testId rq)) ''type'' = Inr (Json (JStr ''writing'')) \<and>
          and_then (essay_of (or_else (opt_prop (body_or_empty (sb_body rq)) ''answers'') (JArr [])))
            (userContent (js_get (TESTS s) (sb_testId rq))) = Inr content \<and>
          callOpenAIChat (sb_chat rq) [(''system'', writingSystem), (''user'', content)] = Inr (JStr txt)
          \<longrightarrow>
            fst (submit cfg rq s) =
              Reply 200 [(''ok'', Json (JBool True)), (''jobId'', Json (JStr (sb_uuid_job rq))),
                         (''result'', Json (JObj [(''raw'', JStr txt)]))] \<and>
            map_option j_result (SUBMISSIONS (fst (snd (submit cfg rq s))) (sb_uuid_job rq)) =
              Some (JObj [(''raw'', JStr txt)]) \<and>
            snd (snd (submit cfg rq s)) = [ChatCall [(''system'', writingSystem), (''user'', content)]])
    \<and> (\<not> is_multipart rq \<and>
          get_prop (js_get (TESTS s) (sb_testId rq)) ''type'' = Inr (Json (JStr ''writing'')) \<and>
          and_then (essay_of (or_else (opt_prop (body_or_empty (sb_body rq)) ''answers'') (JArr [])))
            (userContent (js_get (TESTS s) (sb_testId rq))) = Inr content \<and>
          callOpenAIChat (sb_chat rq) [(''system'', writingSystem_api), (''user'', content)] = Inr (JStr txt)
          \<longrightarrow>
            fst (submit_api cfg rq s) =
              Reply 200 [(''ok'', Json (JBool True)), (''jobId'', Json (JStr (sb_uuid_job rq))),
                         (''result'', Json (JObj [(''raw'', JStr txt)]))] \<and>
            map_option j_result (SUBMISSIONS (fst (snd (submit_api cfg rq s))) (sb_uuid_job rq)) =
              Some (JObj [(''raw'', JStr txt)]) \<and>
            snd (snd (submit_api cfg rq s)) =
              [ChatCall [(''system'', writingSystem_api), (''user'', content)]])"
proof (intro conjI impI)
  assume h: "sb_file rq \<and> sb_transcription rq = TrBody trj \<and> get_prop (Json trj) ''text'' = Inr t \<and>
          str (Json (or_else t (JStr []))) = Inr heard \<and>
          callOpenAIChat (sb_chat rq)
            [(''system'', speakingSystem), (''user'', ''Transcript:\<newline>\<newline>'' @ heard)] = Inr (JStr txt)"
  then have "grade (parse cfg) (sb_chat rq)
               [(''system'', speakingSystem), (''user'', ''Transcript:\<newline>\<newline>'' @ heard)]
             = Inr (JObj [(''raw'', JStr txt)])"
    using grade_raw [where parser = "parse cfg"] assms(2) by blast
  with h have run: "submit cfg rq s =
           (job_reply rq (JObj [(''raw'', JStr txt)]),
            s\<lparr>SUBMISSIONS := (SUBMISSIONS s)(sb_uuid_job rq \<mapsto>
                  new_job rq ''speaking'' (Transcript (or_else t (JStr []))) (JObj [(''raw'', JStr txt)])),
              ORDERS := mark_graded (ORDERS s) (sb_testId rq)\<rparr>,
            [TranscribeCall,
             ChatCall [(''system'', speakingSystem), (''user'', ''Transcript:\<newline>\<newline>'' @ heard)]])"
    using submit_speaking_graded [OF assms(1)] by blast
  show "fst (submit cfg rq s) =
              Reply 200 [(''ok'', Json (JBool True)), (''jobId'', Json (JStr (sb_uuid_job rq))),
                         (''result'', Json (JObj [(''raw'', JStr txt)]))]"
    by (simp add: run job_reply_def)
  show "map_option j_result (SUBMISSIONS (fst (snd (submit cfg rq s))) (sb_uuid_job rq)) =
              Some (JObj [(''raw'', JStr txt)])"
    by (simp add: run new_job_def)
  show "snd (snd (submit cfg rq s)) =
              [TranscribeCall,
               ChatCall [(''system'', speakingSystem), (''user'', ''Transcript:\<newline>\<newline>'' @ heard)]]"
    by (simp add: run)
next
  assume h: "\<not> sb_file rq \<and>
          get_prop (js_get (TESTS s) (sb_testId rq)) ''type'' = Inr (Json (JStr ''writing'')) \<and>
          and_then (essay_of (or_else (opt_prop (body_or_empty (sb_body rq)) ''answers'') (JArr [])))
            (userContent (js_get (TESTS s) (sb_testId rq))) = Inr content \<and>
          callOpenAIChat (sb_chat rq) [(''system'', writingSystem), (''user'', content)] = Inr (JStr txt)"
  then have "grade (parse cfg) (sb_chat rq) [(''system'', writingSystem), (''user'', content)]
             = Inr (JObj [(''raw'', JStr txt)])"
    using grade_raw [where parser = "parse cfg"] assms(2) by blast
  with h have run: "submit cfg rq s =
           (job_reply rq (JObj [(''raw'', JStr txt)]),
            s\<lparr>SUBMISSIONS := (SUBMISSIONS s)(sb_uuid_job rq \<mapsto>
                  new_job rq ''writing''
                    (Answers (or_else (opt_prop (body_or_empty (sb_body rq)) ''answers'') (JArr [])))
                    (JObj [(''raw'', JStr txt)])),
              ORDERS := mark_graded (ORDERS s) (sb_testId rq)\<rparr>,
            [ChatCall [(''system'', writingSystem), (''user'', content)]])"
    using submit_writing_graded [OF assms(1)] by blast
  show "fst (submit cfg rq s) =
              Reply 200 [(''ok'', Json (JBool True)), (''jobId'', Json (JStr (sb_uuid_job rq))),
                         (''result'', Json (JObj [(''raw'', JStr txt)]))]"
    by (simp add: run job_reply_def)
  show "map_option j_result (SUBMISSIONS (fst (snd (submit cfg rq s))) (sb_uuid_job rq)) =
              Some (JObj [(''raw'', JStr txt)])"
    by (simp add: run new_job_def)
  show "snd (snd (submit cfg rq s)) = [ChatCall [(''system'', writingSystem), (''user'', content)]]"
    by (simp add: run)
next
  assume h: "\<not> is_multipart rq \<and>
          get_prop (js_get (TESTS s) (sb_testId rq)) ''type'' = Inr (Json (JStr ''writing'')) \<and>
          and_then (essay_of (or_else (opt_prop (body_or_empty (sb_body rq)) ''answers'') (JArr [])))
            (userContent (js_get (TESTS s) (sb_testId rq))) = Inr content \<and>
          callOpenAIChat (sb_chat rq) [(''system'', writingSystem_api), (''user'', content)] = Inr (JStr txt)"
  then have "grade (parse cfg) (sb_chat rq) [(''system'', writingSystem_api), (''user'', content)]
             = Inr (JObj [(''raw'', JStr txt)])"
    using grade_raw [where parser = "parse cfg"] assms(2) by blast
  with h have run: "submit_api cfg rq s =
           (job_reply rq (JObj [(''raw'', JStr txt)]),
            s\<lparr>SUBMISSIONS := (SUBMISSIONS s)(sb_uuid_job rq \<mapsto>
                  new_job rq ''writing''
                    (Answers (or_else (opt_prop (body_or_empty (sb_body rq)) ''answers'') (JArr [])))
                    (JObj [(''raw'', JStr txt)]))\<rparr>,
            [ChatCall [(''system'', writingSystem_api), (''user'', content)]])"
    using submit_api_writing_graded [OF assms(1)] by blast
  show "fst (submit_api cfg rq s) =
              Reply 200 [(''ok'', Json (JBool True)), (''jobId'', Json (JStr (sb_uuid_job rq))),
                         (''result'', Json (JObj [(''raw'', JStr txt)]))]"
    by (simp add: run job_reply_def)
  show "map_option j_result (SUBMISSIONS (fst (snd (submit_api cfg rq s))) (sb_uuid_job rq)) =
              Some (JObj [(''raw'', JStr txt)])"
    by (simp add: run new_job_def)
  show "snd (snd (submit_api cfg rq s)) =
              [ChatCall [(''system'', writingSystem_api), (''user'', content)]]"
    by (simp add: run)
qed

theorem grading_keeps_raw_text_witness:
  "fst (submit sample_cfg
          (essay_submit ''t1'' (Json (JObj [(''answers'', JArr [JObj [(''questionId'', JStr ''q1''),
                                                                     (''answerText'', JStr ''My essay.'')]])]))
             (chat_says ''Band 6, decent.'') ''j1'')
          (run sample_cfg init_state [OrderTest (writing_order fetch_rejects ''o1'' ''t1'')]))
     = Reply 200 [(''ok'', Json (JBool True)), (''jobId'', Json (JStr ''j1'')),
                  (''result'', Json (JObj [(''raw'', JStr ''Band 6, decent.'')]))]
   \<and> fst (submit sample_cfg (audio_submit ''t1'' ''Hello.'' (chat_says ''Band 5.'') ''j2'')
            (run sample_cfg init_state [OrderTest (writing_order fetch_rejects ''o1'' ''t1'')]))
     = Reply 200 [(''ok'', Json (JBool True)), (''jobId'', Json (JStr ''j2'')),
                  (''result'', Json (JObj [(''raw'', JStr ''Band 5.'')]))]
   \<and> map_option j_result
        (SUBMISSIONS
           (fst (snd (submit sample_cfg (audio_submit ''t1'' ''Hello.'' (chat_says ''Band 5.'') ''j2'')
                        (run sample_cfg init_state [OrderTest (writing_order fetch_rejects ''o1'' ''t1'')]))))
           ''j2'')
     = Some (JObj [(''raw'', JStr ''Band 5.'')])
   \<and> fst (submit_api sample_cfg
            (essay_submit ''t1'' (Json (JObj [(''answers'', JArr [JObj [(''answerText'', JStr ''My essay.'')]])]))
               (chat_says ''Band 4?'') ''j3'')
            (run sample_cfg init_state [OrderTestApi (writing_order fetch_rejects ''o1'' ''t1'')]))
     = Reply 200 [(''ok'', Json (JBool True)), (''jobId'', Json (JStr ''j3'')),
                  (''result'', Json (JObj [(''raw'', JStr ''Band 4?'')]))]
   \<and> map_option j_result
        (SUBMISSIONS
           (fst (snd (submit_api sample_cfg
                        (essay_submit ''t1'' (Json (JObj [(''answers'', JArr [JObj [(''answerText'', JStr ''My essay.'')]])]))
                           (chat_says ''Band 4?'') ''j3'')
                        (run sample_cfg init_state [OrderTestApi (writing_order fetch_rejects ''o1'' ''t1'')]))))
           ''j3'')
     = Some (JObj [(''raw'', JStr ''Band 4?'')])"
proof -
  let ?s = "run sample_cfg init_state [OrderTest (writing_order fetch_rejects ''o1'' ''t1'')]"
  let ?sa = "run sample_cfg init_state [OrderTestApi (writing_order fetch_rejects ''o1'' ''t1'')]"
  let ?w = "essay_submit ''t1'' (Json (JObj [(''answers'', JArr [JObj [(''questionId'', JStr ''q1''),
                                                                     (''answerText'', JStr ''My essay.'')]])]))
              (chat_says ''Band 6, decent.'') ''j1''"
  let ?a = "audio_submit ''t1'' ''Hello.'' (chat_says ''Band 5.'') ''j2''"
  let ?v = "essay_submit ''t1'' (Json (JObj [(''answers'', JArr [JObj [(''answerText'', JStr ''My essay.'')]])]))
              (chat_says ''Band 4?'') ''j3''"
  let ?cw = "projr (and_then (essay_of (or_else (opt_prop (body_or_empty (sb_body ?w)) ''answers'') (JArr [])))
                      (userContent (js_get (TESTS ?s) (sb_testId ?w))))"
  let ?cv = "projr (and_then (essay_of (or_else (opt_prop (body_or_empty (sb_body ?v)) ''answers'') (JArr [])))
                      (userContent (js_get (TESTS ?sa) (sb_testId ?v))))"
  have said: "said \<noteq> [] \<Longrightarrow> callOpenAIChat (chat_says said) msgs = Inr (JStr said)" for said msgs
    by (simp add: chat_says_def callOpenAIChat_def and_then_def opt_prop_def opt_index0_def
          nullish_def or_else_def)
  have unparsed: "parse sample_cfg said = None" for said
    by (simp add: sample_cfg_def never_parses_def)
  \<comment> \<open>the writing path of \<^verbatim>\<open>server.js\<close>\<close>
  have w1: "truthy (js_get (TESTS ?s) (sb_testId ?w))"
    by code_simp
  have w2: "\<not> sb_file ?w" and w3: "sb_chat ?w = chat_says ''Band 6, decent.''"
    and w4: "sb_uuid_job ?w = ''j1''"
    by (simp_all add: essay_submit_def)
  have w5: "get_prop (js_get (TESTS ?s) (sb_testId ?w)) ''type'' = Inr (Json (JStr ''writing''))"
    by code_simp
  have w6: "and_then (essay_of (or_else (opt_prop (body_or_empty (sb_body ?w)) ''answers'') (JArr [])))
              (userContent (js_get (TESTS ?s) (sb_testId ?w))) = Inr ?cw"
    by code_simp
  have w7: "callOpenAIChat (sb_chat ?w) [(''system'', writingSystem), (''user'', ?cw)]
              = Inr (JStr ''Band 6, decent.'')"
    unfolding w3 by (rule said) simp
  from grading_keeps_raw_text [of ?s ?w sample_cfg "''Band 6, decent.''" _ _ _ ?cw, OF w1 unparsed]
       w2 w5 w6 w7
  have w: "fst (submit sample_cfg ?w ?s) =
             Reply 200 [(''ok'', Json (JBool True)), (''jobId'', Json (JStr (sb_uuid_job ?w))),
                        (''result'', Json (JObj [(''raw'', JStr ''Band 6, decent.'')]))]"
    by blast
  \<comment> \<open>the speaking path of \<^verbatim>\<open>server.js\<close>\<close>
  have a1: "truthy (js_get (TESTS ?s) (sb_testId ?a))"
    by code_simp
  have a2: "sb_file ?a" and a3: "sb_chat ?a = chat_says ''Band 5.''"
    and a4: "sb_uuid_job ?a = ''j2''"
    and a5: "sb_transcription ?a = TrBody (JObj [(''text'', JStr ''Hello.'')])"
    by (simp_all add: audio_submit_def)
  have a6: "get_prop (Json (JObj [(''text'', JStr ''Hello.'')])) ''text'' = Inr (Json (JStr ''Hello.''))"
    by simp
  have a7: "str (Json (or_else (Json (JStr ''Hello.'')) (JStr []))) = Inr ''Hello.''"
    by (simp add: or_else_def)
  have a8: "callOpenAIChat (sb_chat ?a)
              [(''system'', speakingSystem), (''user'', ''Transcript:\<newline>\<newline>'' @ ''Hello.'')]
              = Inr (JStr ''Band 5.'')"
    unfolding a3 by (rule said) simp
  from grading_keeps_raw_text [of ?s ?a sample_cfg "''Band 5.''" "JObj [(''text'', JStr ''Hello.'')]"
                                  "Json (JStr ''Hello.'')" "''Hello.''", OF a1 unparsed]
       a2 a5 a6 a7 a8
  have a: "fst (submit sample_cfg ?a ?s) =
             Reply 200 [(''ok'', Json (JBool True)), (''jobId'', Json (JStr (sb_uuid_job ?a))),
                        (''result'', Json (JObj [(''raw'', JStr ''Band 5.'')]))]"
    and aj: "map_option j_result (SUBMISSIONS (fst (snd (submit sample_cfg ?a ?s))) (sb_uuid_job ?a)) =
             Some (JObj [(''raw'', JStr ''Band 5.'')])"
    by blast+
  \<comment> \<open>the handler under \<^verbatim>\<open>api/\<close>\<close>
  have v1: "truthy (js_get (TESTS ?sa) (sb_testId ?v))"
    by code_simp
  have v2: "\<not> is_multipart ?v" and v3: "sb_chat ?v = chat_says ''Band 4?''"
    and v4: "sb_uuid_job ?v = ''j3''"
    by (simp_all add: essay_submit_def is_multipart_def)
  have v5: "get_prop (js_get (TESTS ?sa) (sb_testId ?v)) ''type'' = Inr (Json (JStr ''writing''))"
    by code_simp
  have v6: "and_then (essay_of (or_else (opt_prop (body_or_empty (sb_body ?v)) ''answers'') (JArr [])))
              (userContent (js_get (TESTS ?sa) (sb_testId ?v))) = Inr ?cv"
    by code_simp
  have v7: "callOpenAIChat (sb_chat ?v) [(''system'', writingSystem_api), (''user'', ?cv)]
              = Inr (JStr ''Band 4?'')"
    unfolding v3 by (rule said) simp
  from grading_keeps_raw_text [of ?sa ?v sample_cfg "''Band 4?''" _ _ _ ?cv, OF v1 unparsed]
       v2 v5 v6 v7
  have v: "fst (submit_api sample_cfg ?v ?sa) =
             Reply 200 [(''ok'', Json (JBool True)), (''jobId'', Json (JStr (sb_uuid_job ?v))),
                        (''result'', Json (JObj [(''raw'', JStr ''Band 4?'')]))]"
    and vj: "map_option j_result (SUBMISSIONS (fst (snd (submit_api sample_cfg ?v ?sa))) (sb_uuid_job ?v)) =
             Some (JObj [(''raw'', JStr ''Band 4?'')])"
    by blast+
  from w a aj v vj show ?thesis
    unfolding w4 a4 v4 by blast
qed

lemma essay_of_missing:
  assumes "\<not> truthy answers \<or> answers = Json (JArr []) \<or>
           (\<exists>a rest. answers = Json (JArr (a # rest)) \<and> opt_prop (Json a) ''answerText'' = Undefined)"
  shows "essay_of (or_else answers (JArr [])) = Inr (JStr [])"
proof -
  have empty: "essay_of (JArr []) = Inr (JStr [])"
    by (simp add: essay_of_def and_then_def or_else_def)
  from assms consider "\<not> truthy answers" | "answers = Json (JArr [])"
    | a rest where "answers = Json (JArr (a # rest))" "opt_prop (Json a) ''answerText'' = Undefined"
    by blast
  then show ?thesis
  proof cases
    case 1
    then have "or_else answers (JArr []) = JArr []"
      by (cases answers) (simp_all add: or_else_def)
    with empty show ?thesis by simp
  next
    case 2
    with empty show ?thesis by (simp add: or_else_def)
  next
    case 3
    from 3(2) have "\<not> truthy (Json a) \<or> get_prop (Json a) ''answerText'' = Inr Undefined"
      by (cases a) (auto simp: opt_prop_def nullish_def split: if_splits sum.splits)
    then show ?thesis
      using 3(1) by (cases a) (auto simp: essay_of_def and_then_def or_else_def)
  qed
qed

lemma writing_submit_unfold:
  assumes "handler = submit \<and> \<not> sb_file rq \<or> handler = submit_api \<and> \<not> is_multipart rq"
    and "js_get (TESTS s) (sb_testId rq) = Json t"
    and "get_prop (Json t) ''type'' = Inr (Json (JStr ''writing''))"
    and "essay_of (or_else (opt_prop (body_or_empty (sb_body rq)) ''answers'') (JArr [])) = Inr essay"
  shows "\<exists>sys marked. handler cfg rq s =
     (case userContent (Json t) essay of
        Inl e \<Rightarrow> (Threw e, s, [])
      | Inr content \<Rightarrow>
          (case grade (parse cfg) (sb_chat rq) [(''system'', sys), (''user'', content)] of
             Inl e \<Rightarrow> (Threw e, s, [ChatCall [(''system'', sys), (''user'', content)]])
           | Inr parsed \<Rightarrow>
               (job_reply rq parsed,
                s\<lparr>SUBMISSIONS := (SUBMISSIONS s)(sb_uuid_job rq \<mapsto>
                      new_job rq ''writing''
                        (Answers (or_else (opt_prop (body_or_empty (sb_body rq)) ''answers'') (JArr [])))
                        parsed),
                  ORDERS := marked\<rparr>,
                [ChatCall [(''system'', sys), (''user'', content)]])))"
proof -
  from assms(3) have tr: "truthy (Json t)"
    by (cases t) auto
  from assms(1) show ?thesis
  proof
    assume h: "handler = submit \<and> \<not> sb_file rq"
    show ?thesis
      apply (rule exI [of _ writingSystem])
      apply (rule exI [of _ "mark_graded (ORDERS s) (sb_testId rq)"])
      using h assms(2,3,4) tr
      by (simp add: submit_def Let_def and_then_def split: sum.splits)
  next
    assume h: "handler = submit_api \<and> \<not> is_multipart rq"
    show ?thesis
      apply (rule exI [of _ writingSystem_api])
      apply (rule exI [of _ "ORDERS s"])
      using h assms(2,3,4) tr
      by (simp add: submit_api_def Let_def and_then_def split: sum.splits)
  qed
qed

text \<open>
  C10, as the claim states it, fails when the grading call itself fails: the submission without
  answers is answered 500 and no job is stored.
\<close>

theorem missing_answers_counterexample:
  "fst (submit sample_cfg (essay_submit ''t1'' (Json (JObj [])) fetch_rejects ''j1'')
          (run sample_cfg init_state [OrderTest (writing_order fetch_rejects ''o1'' ''t1'')]))
     = Threw FetchRejected
   \<and> SUBMISSIONS
        (fst (snd (submit sample_cfg (essay_submit ''t1'' (Json (JObj [])) fetch_rejects ''j1'')
                     (run sample_cfg init_state [OrderTest (writing_order fetch_rejects ''o1'' ''t1'')]))))
        ''j1'' = None"
  by code_simp

text \<open>
  C10 amended. For a stored test of type \<^verbatim>\<open>writing\<close> and a JSON submission (to
  \<^verbatim>\<open>server.js\<close> without an audio file, to the handler under \<^verbatim>\<open>api/\<close> without a
  multipart body) whose \<^verbatim>\<open>answers\<close> are missing, empty, or whose first answer has no
  \<^verbatim>\<open>answerText\<close>: no 400 is answered, the essay is the empty string, the grading call is
  made with an empty essay whenever the prompt of the test can be written into the instruction,
  and whenever that call returns, the request is answered 200 and a job holding the answers
  as sent is stored. A grading call that fails is answered 500 and stores no job.
\<close>

theorem missing_answers_are_graded:
  assumes "handler = submit \<and> \<not> sb_file rq \<or> handler = submit_api \<and> \<not> is_multipart rq"
    and "js_get (TESTS s) (sb_testId rq) = Json t"
    and "get_prop (Json t) ''type'' = Inr (Json (JStr ''writing''))"
    and "\<not> truthy (opt_prop (body_or_empty (sb_body rq)) ''answers'') \<or>
         opt_prop (body_or_empty (sb_body rq)) ''answers'' = Json (JArr []) \<or>
         (\<exists>a rest. opt_prop (body_or_empty (sb_body rq)) ''answers'' = Json (JArr (a # rest)) \<and>
                    opt_prop (Json a) ''answerText'' = Undefined)"
    and "handler cfg rq s = (rsp, s', calls)"
  shows "(\<forall>msg. rsp \<noteq> error_reply 400 msg)
    \<and> essay_of (or_else (opt_prop (body_or_empty (sb_body rq)) ''answers'') (JArr [])) = Inr (JStr [])
    \<and> (\<forall>ps. and_then (prompt_of (Json t)) str = Inr ps \<longrightarrow>
          (\<exists>sys. calls = [ChatCall [(''system'', sys),
                                     (''user'', ''Prompt:\<newline>'' @ ps @ ''\<newline>\<newline>Essay:\<newline>'')]]))
    \<and> (\<forall>messages reply.
          ChatCall messages \<in> set calls \<and> callOpenAIChat (sb_chat rq) messages = Inr reply \<longrightarrow>
          (\<exists>parsed j. rsp = Reply 200 [(''ok'', Json (JBool True)),
                                        (''jobId'', Json (JStr (sb_uuid_job rq))),
                                        (''result'', Json parsed)] \<and>
                       SUBMISSIONS s' (sb_uuid_job rq) = Some j \<and> j_result j = parsed \<and>
                       j_input j = Answers (or_else (opt_prop (body_or_empty (sb_body rq)) ''answers'')
                                              (JArr []))))
    \<and> (\<forall>messages e. ChatCall messages \<in> set calls \<and> callOpenAIChat (sb_chat rq) messages = Inl e \<longrightarrow>
          rsp = Threw e \<and> s' = s)"
proof -
  let ?answers = "or_else (opt_prop (body_or_empty (sb_body rq)) ''answers'') (JArr [])"
  have essay: "essay_of ?answers = Inr (JStr [])"
    by (rule essay_of_missing [OF assms(4)])
  from writing_submit_unfold [OF assms(1,2,3) essay, of cfg] assms(5)
  obtain sys marked where run: "(rsp, s', calls) =
     (case userContent (Json t) (JStr []) of
        Inl e \<Rightarrow> (Threw e, s, [])
      | Inr content \<Rightarrow>
          (case grade (parse cfg) (sb_chat rq) [(''system'', sys), (''user'', content)] of
             Inl e \<Rightarrow> (Threw e, s, [ChatCall [(''system'', sys), (''user'', content)]])
           | Inr parsed \<Rightarrow>
               (job_reply rq parsed,
                s\<lparr>SUBMISSIONS := (SUBMISSIONS s)(sb_uuid_job rq \<mapsto>
                      new_job rq ''writing'' (Answers ?answers) parsed),
                  ORDERS := marked\<rparr>,
                [ChatCall [(''system'', sys), (''user'', content)]])))"
    by auto
  have a: "\<forall>msg. rsp \<noteq> error_reply 400 msg"
    using run by (auto simp: error_reply_def job_reply_def split: sum.splits)
  have b: "\<forall>ps. and_then (prompt_of (Json t)) str = Inr ps \<longrightarrow>
          (\<exists>sys. calls = [ChatCall [(''system'', sys),
                                     (''user'', ''Prompt:\<newline>'' @ ps @ ''\<newline>\<newline>Essay:\<newline>'')]])"
    using run by (auto simp: userContent_def and_then_def split: sum.splits)
  have c: "\<forall>messages reply.
          ChatCall messages \<in> set calls \<and> callOpenAIChat (sb_chat rq) messages = Inr reply \<longrightarrow>
          (\<exists>parsed j. rsp = Reply 200 [(''ok'', Json (JBool True)),
                                        (''jobId'', Json (JStr (sb_uuid_job rq))),
                                        (''result'', Json parsed)] \<and>
                       SUBMISSIONS s' (sb_uuid_job rq) = Some j \<and> j_result j = parsed \<and>
                       j_input j = Answers ?answers)"
    using run by (auto simp: grade_def and_then_def job_reply_def new_job_def split: sum.splits)
  have d: "\<forall>messages e. ChatCall messages \<in> set calls \<and> callOpenAIChat (sb_chat rq) messages = Inl e \<longrightarrow>
          rsp = Threw e \<and> s' = s"
    using run by (auto simp: grade_def and_then_def split: sum.splits)
  from a essay b c d show ?thesis by blast
qed

theorem missing_answers_are_graded_witness:
  "essay_of (or_else (opt_prop (body_or_empty (Json (JObj []))) ''answers'') (JArr [])) = Inr (JStr [])
   \<and> (\<exists>parsed j.
         fst (submit sample_cfg (essay_submit ''t1'' (Json (JObj [])) (chat_says ''Band 1.'') ''j1'')
                (run sample_cfg init_state [OrderTest (writing_order fetch_rejects ''o1'' ''t1'')]))
           = Reply 200 [(''ok'', Json (JBool True)), (''jobId'', Json (JStr ''j1'')),
                        (''result'', Json parsed)]
         \<and> SUBMISSIONS
             (fst (snd (submit sample_cfg (essay_submit ''t1'' (Json (JObj [])) (chat_says ''Band 1.'') ''j1'')
                          (run sample_cfg init_state [OrderTest (writing_order fetch_rejects ''o1'' ''t1'')]))))
             ''j1'' = Some j
         \<and> j_input j = Answers (JArr []))"
proof -
  let ?rq = "essay_submit ''t1'' (Json (JObj [])) (chat_says ''Band 1.'') ''j1''"
  let ?s = "run sample_cfg init_state [OrderTest (writing_order fetch_rejects ''o1'' ''t1'')]"
  let ?out = "submit sample_cfg ?rq ?s"
  let ?messages = "case snd (snd ?out) of [ChatCall m] \<Rightarrow> m"
  have h: "submit = submit \<and> \<not> sb_file ?rq \<or> submit = submit_api \<and> \<not> is_multipart ?rq"
    by (simp add: essay_submit_def)
  have stored: "js_get (TESTS ?s) (sb_testId ?rq) = Json (fallback_test ''t1'' (JStr ''ielts-6''))"
    by code_simp
  have writing: "get_prop (Json (fallback_test ''t1'' (JStr ''ielts-6''))) ''type'' = Inr (Json (JStr ''writing''))"
    by (simp add: fallback_test_def)
  have body: "sb_body ?rq = Json (JObj [])" and jid: "sb_uuid_job ?rq = ''j1''"
    by (simp_all add: essay_submit_def)
  have none: "opt_prop (body_or_empty (Json (JObj []))) ''answers'' = Undefined"
    by (simp add: body_or_empty_def opt_prop_def nullish_def inherited_member_def
          object_prototype_names_def)
  have missing: "\<not> truthy (opt_prop (body_or_empty (sb_body ?rq)) ''answers'') \<or>
         opt_prop (body_or_empty (sb_body ?rq)) ''answers'' = Json (JArr []) \<or>
         (\<exists>a rest. opt_prop (body_or_empty (sb_body ?rq)) ''answers'' = Json (JArr (a # rest)) \<and>
                    opt_prop (Json a) ''answerText'' = Undefined)"
    by (simp add: body none)
  have out: "?out = (fst ?out, fst (snd ?out), snd (snd ?out))"
    by simp
  have called: "ChatCall ?messages \<in> set (snd (snd ?out))"
    by code_simp
  have said: "callOpenAIChat (sb_chat ?rq) ?messages = Inr (JStr ''Band 1.'')"
    by (simp add: essay_submit_def chat_says_def callOpenAIChat_def and_then_def opt_prop_def
          opt_index0_def nullish_def or_else_def)
  note graded = missing_answers_are_graded [OF h stored writing missing out]
  from graded have e: "essay_of (or_else (opt_prop (body_or_empty (sb_body ?rq)) ''answers'') (JArr [])) = Inr (JStr [])"
    by blast
  from graded called said
  have "\<exists>parsed j. fst ?out = Reply 200 [(''ok'', Json (JBool True)),
                                        (''jobId'', Json (JStr (sb_uuid_job ?rq))),
                                        (''result'', Json parsed)] \<and>
                   SUBMISSIONS (fst (snd ?out)) (sb_uuid_job ?rq) = Some j \<and> j_result j = parsed \<and>
                   j_input j = Answers (or_else (opt_prop (body_or_empty (sb_body ?rq)) ''answers'') (JArr []))"
    by blast
  with e show ?thesis
    unfolding body jid none by (auto simp: or_else_def)
qed

section \<open>Orders after a submission\<close>

lemma mark_graded_matching:
  "orders k = Some ord \<Longrightarrow> o_testId ord = JStr tid \<Longrightarrow>
     mark_graded orders tid k = Some (ord\<lparr>o_status := Graded\<rparr>)"
  by (simp add: mark_graded_def)

lemma mark_graded_other:
  "orders k = Some ord \<Longrightarrow> o_testId ord \<noteq> JStr tid \<Longrightarrow> mark_graded orders tid k = Some ord"
  by (simp add: mark_graded_def)

lemma mark_graded_None: "mark_graded orders tid k = None \<longleftrightarrow> orders k = None"
  by (simp add: mark_graded_def)

lemma submit_ORDERS:
  "submit cfg rq s = (rsp, s', calls) \<Longrightarrow>
     (\<exists>flds. rsp = Reply 200 flds) \<and> ORDERS s' = mark_graded (ORDERS s) (sb_testId rq) \<or>
     (\<forall>flds. rsp \<noteq> Reply 200 flds) \<and> s' = s"
  by (auto simp: submit_def Let_def error_reply_def job_reply_def
        split: if_splits tr_result.splits sum.splits)

lemma submit_api_ORDERS:
  "submit_api cfg rq s = (rsp, s', calls) \<Longrightarrow> ORDERS s' = ORDERS s"
  by (auto simp: submit_api_def Let_def split: if_splits sum.splits)

text \<open>
  In \<^verbatim>\<open>server.js\<close>, after a submission answered 200, every order whose
  \<^verbatim>\<open>testId\<close> is the submitted one is the order it was with the status \<^verbatim>\<open>graded\<close>, every
  other order is unchanged, and no order appears or disappears.
\<close>

lemma server_submit_marks_orders:
  assumes "submit cfg rq s = (Reply 200 flds, s', calls)"
  shows "(\<forall>k ord. ORDERS s k = Some ord \<and> o_testId ord = JStr (sb_testId rq) \<longrightarrow>
                   ORDERS s' k = Some (ord\<lparr>o_status := Graded\<rparr>))
       \<and> (\<forall>k ord. ORDERS s k = Some ord \<and> o_testId ord \<noteq> JStr (sb_testId rq) \<longrightarrow>
                   ORDERS s' k = Some ord)
       \<and> (\<forall>k. ORDERS s' k = None \<longleftrightarrow> ORDERS s k = None)"
proof -
  from submit_ORDERS [OF assms]
  have "ORDERS s' = mark_graded (ORDERS s) (sb_testId rq)" by auto
  then show ?thesis
    by (simp add: mark_graded_matching mark_graded_other mark_graded_None)
qed

text \<open>
  C3 at the failing input: an order placed through \<^verbatim>\<open>api/order-test.js\<close> for the test
  \<^verbatim>\<open>t1\<close>, then an essay submitted to \<^verbatim>\<open>api/test/[testId]/submit.js\<close> for \<^verbatim>\<open>t1\<close>.
  The submission is answered 200 and its job is stored, and the order of \<^verbatim>\<open>t1\<close> still
  has the status \<^verbatim>\<open>ready\<close>.
\<close>

theorem api_submit_leaves_order_ready:
  "fst (submit_api sample_cfg
          (essay_submit ''t1'' (Json (JObj [(''answers'', JArr [JObj [(''answerText'', JStr ''My essay.'')]])]))
             (chat_says ''Band 6.'') ''j1'')
          (run sample_cfg init_state [OrderTestApi (writing_order fetch_rejects ''o1'' ''t1'')]))
     = Reply 200 [(''ok'', Json (JBool True)), (''jobId'', Json (JStr ''j1'')),
                  (''result'', Json (JObj [(''raw'', JStr ''Band 6.'')]))]
   \<and> map_option (\<lambda>ord. (o_testId ord, o_status ord))
        (ORDERS
           (run sample_cfg init_state
              [OrderTestApi (writing_order fetch_rejects ''o1'' ''t1''),
               SubmitTestApi
                 (essay_submit ''t1'' (Json (JObj [(''answers'', JArr [JObj [(''answerText'', JStr ''My essay.'')]])]))
                    (chat_says ''Band 6.'') ''j1'')])
           ''o1'')
     = Some (JStr ''t1'', Ready)
   \<and> map_option (\<lambda>ord. (o_testId ord, o_status ord))
        (ORDERS
           (run sample_cfg init_state
              [OrderTest (writing_order fetch_rejects ''o1'' ''t1''),
               SubmitTest
                 (essay_submit ''t1'' (Json (JObj [(''answers'', JArr [JObj [(''answerText'', JStr ''My essay.'')]])]))
                    (chat_says ''Band 6.'') ''j1'')])
           ''o1'')
     = Some (JStr ''t1'', Graded)"
  by code_simp

section \<open>Unknown tests\<close>

text \<open>
  A key that was never written and that names no inherited member is answered 404 by both
  submit handlers, without a call and without a change of state.
\<close>

lemma unknown_test_not_found:
  assumes "handler = submit \<or> handler = submit_api"
    and "own (TESTS s) (sb_testId rq) = None" and "proto (TESTS s) = None"
    and "sb_testId rq \<noteq> ''__proto__''" and "sb_testId rq \<notin> set object_prototype_names"
  shows "handler cfg rq s = (error_reply 404 ''test not found'', s, [])"
  using assms
  by (auto simp: submit_def submit_api_def js_get_def inherited_member_def Let_def)

text \<open>
  C6 at the failing input: no test was ever stored, and an audio submission arrives at
  \<^verbatim>\<open>server.js\<close> for the \<^verbatim>\<open>testId\<close> \<^verbatim>\<open>constructor\<close>. The lookup in the plain object
  \<^verbatim>\<open>TESTS\<close> finds the inherited member of that name, so the handler transcribes, grades,
  stores a job and answers 200; the handler under \<^verbatim>\<open>api/\<close> answers a JSON submission for
  the same \<^verbatim>\<open>testId\<close> with 400 instead of 404.
\<close>

theorem inherited_key_is_not_unknown:
  "own (TESTS init_state) ''constructor'' = None
   \<and> fst (submit sample_cfg (audio_submit ''constructor'' ''Hello.'' (chat_says ''Band 5.'') ''j1'') init_state)
       = Reply 200 [(''ok'', Json (JBool True)), (''jobId'', Json (JStr ''j1'')),
                    (''result'', Json (JObj [(''raw'', JStr ''Band 5.'')]))]
   \<and> map_option j_testId
        (SUBMISSIONS (fst (snd (submit sample_cfg
            (audio_submit ''constructor'' ''Hello.'' (chat_says ''Band 5.'') ''j1'') init_state))) ''j1'')
       = Some ''constructor''
   \<and> length (snd (snd (submit sample_cfg
            (audio_submit ''constructor'' ''Hello.'' (chat_says ''Band 5.'') ''j1'') init_state))) = 2
   \<and> fst (submit_api sample_cfg (essay_submit ''constructor'' (Json (JObj [])) (chat_says ''Band 5.'') ''j1'')
            init_state)
       = Reply 400 [(''error'', Json (JStr ''Unsupported submission type''))]"
  by code_simp

section \<open>Fetching what was ordered\<close>

lemma js_get_after_set:
  "key \<noteq> ''__proto__'' \<Longrightarrow> js_get (js_set T key v) key = Json v"
  by (simp add: js_get_def js_set_def)

text \<open>
  C9 at the failing input: the chat endpoint answers the order of a writing test with the
  text \<^verbatim>\<open>0\<close>, which is valid JSON. The order is answered 200 with the \<^verbatim>\<open>testId\<close>
  \<^verbatim>\<open>t1\<close> and the number is stored as the test; fetching \<^verbatim>\<open>t1\<close> right afterwards is
  answered 404, because the stored value is falsy. The handlers under \<^verbatim>\<open>api/\<close> do the same.
\<close>

theorem falsy_test_is_not_found:
  "fst (order_test (sample_cfg\<lparr>parse := parses_zero\<rparr>)
          (writing_order (chat_says ''0'') ''o1'' ''t1'') init_state)
     = Reply 200 [(''ok'', Json (JBool True)), (''orderId'', Json (JStr ''o1'')),
                  (''testId'', Json (JStr ''t1'')), (''testUrl'', Json (JStr ''/?testId=t1''))]
   \<and> own (TESTS (fst (snd (order_test (sample_cfg\<lparr>parse := parses_zero\<rparr>)
                    (writing_order (chat_says ''0'') ''o1'' ''t1'') init_state)))) ''t1'' = Some (JNum 0)
   \<and> get_test ''t1'' (fst (snd (order_test (sample_cfg\<lparr>parse := parses_zero\<rparr>)
                    (writing_order (chat_says ''0'') ''o1'' ''t1'') init_state)))
       = Reply 404 [(''error'', Json (JStr ''test not found''))]
   \<and> get_test ''t1'' (fst (snd (order_test_api (sample_cfg\<lparr>parse := parses_zero\<rparr>)
                    (writing_order (chat_says ''0'') ''o1'' ''t1'') init_state)))
       = Reply 404 [(''error'', Json (JStr ''test not found''))]"
  by code_simp

section \<open>The status of an order\<close>

lemma store_order_slot:
  assumes "store_order cfg rq tt lvl g s = (rsp, s')"
  shows "ORDERS s' = ORDERS s \<or>
         (o_status (the (ORDERS s' (od_uuid_order rq))) = Ready \<and>
          ORDERS s' = (ORDERS s)(od_uuid_order rq \<mapsto> the (ORDERS s' (od_uuid_order rq))))"
  using assms
  by (auto simp: store_order_def Let_def split: sum.splits option.splits)

lemma store_order_ORDERS:
  assumes "store_order cfg rq tt lvl g s = (rsp, s')"
  shows "ORDERS s' = ORDERS s \<or>
         (\<exists>ord. o_status ord = Ready \<and> ORDERS s' = (ORDERS s)(od_uuid_order rq \<mapsto> ord))"
  using store_order_slot [OF assms] by blast

lemma order_test_ORDERS:
  assumes "order_test cfg rq s = (rsp, s', calls)"
  shows "ORDERS s' = ORDERS s \<or>
         (\<exists>ord. o_status ord = Ready \<and> ORDERS s' = (ORDERS s)(od_uuid_order rq \<mapsto> ord))"
  using assms
  by (auto simp: order_test_def Let_def split: jsval.splits if_splits prod.splits
        dest!: store_order_ORDERS)

lemma order_test_api_ORDERS:
  assumes "order_test_api cfg rq s = (rsp, s', calls)"
  shows "ORDERS s' = ORDERS s \<or>
         (\<exists>ord. o_status ord = Ready \<and> ORDERS s' = (ORDERS s)(od_uuid_order rq \<mapsto> ord))"
  using assms
  by (auto simp: order_test_api_def Let_def split: jsval.splits if_splits prod.splits option.splits
        dest!: store_order_ORDERS)

lemma step_ORDERS:
  "ORDERS (step cfg s r) = ORDERS s
   \<or> (\<exists>rq ord. (r = OrderTest rq \<or> r = OrderTestApi rq) \<and> o_status ord = Ready \<and>
          ORDERS (step cfg s r) = (ORDERS s)(od_uuid_order rq \<mapsto> ord))
   \<or> (\<exists>tid. ORDERS (step cfg s r) = mark_graded (ORDERS s) tid)"
proof (cases r)
  case (OrderTest rq)
  obtain rsp s' calls where "order_test cfg rq s = (rsp, s', calls)"
    by (cases "order_test cfg rq s") auto
  from order_test_ORDERS [OF this] this OrderTest show ?thesis by auto
next
  case (OrderTestApi rq)
  obtain rsp s' calls where "order_test_api cfg rq s = (rsp, s', calls)"
    by (cases "order_test_api cfg rq s") auto
  from order_test_api_ORDERS [OF this] this OrderTestApi show ?thesis by auto
next
  case (SubmitTest rq)
  obtain rsp s' calls where "submit cfg rq s = (rsp, s', calls)"
    by (cases "submit cfg rq s") auto
  from submit_ORDERS [OF this] this SubmitTest show ?thesis by auto
next
  case (SubmitTestApi rq)
  obtain rsp s' calls where "submit_api cfg rq s = (rsp, s', calls)"
    by (cases "submit_api cfg rq s") auto
  from submit_api_ORDERS [OF this] this SubmitTestApi show ?thesis by auto
qed simp_all

lemma step_keeps_order:
  assumes "mints_fresh s r" and "ORDERS s k = Some ord"
  shows "ORDERS (step cfg s r) k = Some ord \<or> ORDERS (step cfg s r) k = Some (ord\<lparr>o_status := Graded\<rparr>)"
proof -
  from step_ORDERS [of cfg s r]
  consider "ORDERS (step cfg s r) = ORDERS s"
    | rq new where "r = OrderTest rq \<or> r = OrderTestApi rq"
        "ORDERS (step cfg s r) = (ORDERS s)(od_uuid_order rq \<mapsto> new)"
    | tid where "ORDERS (step cfg s r) = mark_graded (ORDERS s) tid"
    by blast
  then show ?thesis
  proof cases
    case 1
    with assms(2) show ?thesis by simp
  next
    case 2
    from 2(1) assms(1) have "ORDERS s (od_uuid_order rq) = None" by auto
    with assms(2) have "k \<noteq> od_uuid_order rq" by auto
    with 2(2) assms(2) show ?thesis by simp
  next
    case 3
    with assms(2) show ?thesis by (simp add: mark_graded_def)
  qed
qed

lemma step_new_order_ready:
  assumes "ORDERS s k = None" and "ORDERS (step cfg s r) k = Some ord"
  shows "o_status ord = Ready"
  using step_ORDERS [of cfg s r] assms
  by (auto simp: mark_graded_def split: if_splits)

lemma run_keeps_order:
  assumes "fresh_run cfg s reqs" and "ORDERS s k = Some ord"
  shows "ORDERS (run cfg s reqs) k = Some ord \<or>
         ORDERS (run cfg s reqs) k = Some (ord\<lparr>o_status := Graded\<rparr>)"
  using assms
proof (induction reqs arbitrary: s ord)
  case Nil
  then show ?case by simp
next
  case (Cons r reqs)
  from Cons.prems(1) have fresh: "mints_fresh s r" and rest: "fresh_run cfg (step cfg s r) reqs"
    by simp_all
  from step_keeps_order [OF fresh Cons.prems(2), of cfg]
  show ?case
  proof
    assume "ORDERS (step cfg s r) k = Some ord"
    from Cons.IH [OF rest this] show ?thesis by simp
  next
    assume "ORDERS (step cfg s r) k = Some (ord\<lparr>o_status := Graded\<rparr>)"
    from Cons.IH [OF rest this] show ?thesis by simp
  qed
qed

text \<open>
  C4. Along every sequence of requests to the routes of \<^verbatim>\<open>server.js\<close> and the handlers
  under \<^verbatim>\<open>api/\<close> in which each order request mints a new order identifier: an order
  that appears is created with the status \<^verbatim>\<open>ready\<close>; a stored order stays stored, and
  is at any later time either the order it was or that order with the status \<^verbatim>\<open>graded\<close>;
  so an order that is \<^verbatim>\<open>graded\<close> stays \<^verbatim>\<open>graded\<close>.
\<close>

theorem order_status_is_monotonic:
  assumes "fresh_run cfg s reqs"
  shows "(\<forall>k ord. ORDERS s k = Some ord \<longrightarrow>
            (\<exists>ord'. ORDERS (run cfg s reqs) k = Some ord' \<and>
                    (ord' = ord \<or> ord' = ord\<lparr>o_status := Graded\<rparr>) \<and>
                    (o_status ord = Graded \<longrightarrow> o_status ord' = Graded)))
       \<and> (\<forall>r k ord. ORDERS s k = None \<and> ORDERS (step cfg s r) k = Some ord \<longrightarrow>
            o_status ord = Ready)"
proof -
  have kept: "\<exists>ord'. ORDERS (run cfg s reqs) k = Some ord' \<and>
                    (ord' = ord \<or> ord' = ord\<lparr>o_status := Graded\<rparr>) \<and>
                    (o_status ord = Graded \<longrightarrow> o_status ord' = Graded)"
    if "ORDERS s k = Some ord" for k ord
    using run_keeps_order [OF assms that] by auto
  have made: "o_status ord = Ready"
    if "ORDERS s k = None \<and> ORDERS (step cfg s r) k = Some ord" for r k ord
    using that step_new_order_ready by blast
  from kept made show ?thesis by blast
qed

theorem order_status_is_monotonic_witness:
  "fresh_run sample_cfg
     (run sample_cfg init_state
        [OrderTest (writing_order fetch_rejects ''o1'' ''t1''),
         SubmitTest (essay_submit ''t1'' (Json (JObj [])) (chat_says ''Band 1.'') ''j1'')])
     [OrderTest (writing_order fetch_rejects ''o2'' ''t1''),
      OrderTestApi (speaking_order ''o3'' ''t3''),
      SubmitTestApi (essay_submit ''t1'' (Json (JObj [])) (chat_says ''Band 2.'') ''j2''),
      GetTest ''t1'', MyTests]
   \<and> map_option o_status
        (ORDERS (run sample_cfg init_state
                   [OrderTest (writing_order fetch_rejects ''o1'' ''t1''),
                    SubmitTest (essay_submit ''t1'' (Json (JObj [])) (chat_says ''Band 1.'') ''j1'')])
           ''o1'') = Some Graded
   \<and> map_option o_status
        (ORDERS (run sample_cfg
                   (run sample_cfg init_state
                      [OrderTest (writing_order fetch_rejects ''o1'' ''t1''),
                       SubmitTest (essay_submit ''t1'' (Json (JObj [])) (chat_says ''Band 1.'') ''j1'')])
                   [OrderTest (writing_order fetch_rejects ''o2'' ''t1''),
                    OrderTestApi (speaking_order ''o3'' ''t3''),
                    SubmitTestApi (essay_submit ''t1'' (Json (JObj [])) (chat_says ''Band 2.'') ''j2''),
                    GetTest ''t1'', MyTests])
           ''o1'') = Some Graded"
proof -
  let ?s = "run sample_cfg init_state
              [OrderTest (writing_order fetch_rejects ''o1'' ''t1''),
               SubmitTest (essay_submit ''t1'' (Json (JObj [])) (chat_says ''Band 1.'') ''j1'')]"
  let ?reqs = "[OrderTest (writing_order fetch_rejects ''o2'' ''t1''),
                OrderTestApi (speaking_order ''o3'' ''t3''),
                SubmitTestApi (essay_submit ''t1'' (Json (JObj [])) (chat_says ''Band 2.'') ''j2''),
                GetTest ''t1'', MyTests]"
  have fresh: "fresh_run sample_cfg ?s ?reqs"
    by code_simp
  have graded: "map_option o_status (ORDERS ?s ''o1'') = Some Graded"
    by code_simp
  then obtain ord where ord: "ORDERS ?s ''o1'' = Some ord" "o_status ord = Graded"
    by auto
  from order_status_is_monotonic [OF fresh] ord
  obtain ord' where "ORDERS (run sample_cfg ?s ?reqs) ''o1'' = Some ord'" "o_status ord' = Graded"
    by blast
  then have "map_option o_status (ORDERS (run sample_cfg ?s ?reqs) ''o1'') = Some Graded"
    by simp
  with fresh graded show ?thesis by blast
qed

end
